theory Spec2Isabelle
  imports Main
begin

section \<open>Values, exceptions and the log\<close>

text \<open>
  The helpers of \<^verbatim>\<open>luxottica_churn/utils/common.py\<close> pass Python values to
  serialisation libraries and log what they did. The values modelled are the ones
  \<^verbatim>\<open>yaml.safe_load\<close> and \<^verbatim>\<open>json.load\<close> build from null, booleans,
  integers, strings, sequences and mappings (float, date and binary scalars are left
  out). A mapping key is hashable; Python compares \<^verbatim>\<open>True\<close> equal to \<^verbatim>\<open>1\<close>
  and \<^verbatim>\<open>False\<close> equal to \<^verbatim>\<open>0\<close>, so a boolean key is the number it equals.
\<close>

datatype key = KNone | KNum int | KStr string

datatype py_value =
    PNone
  | PBool bool
  | PInt int
  | PStr string
  | PList "py_value list"
  | PDict "(key \<times> py_value) list"

text \<open>A path is the list of its components below the working directory; \<open>[]\<close> is
  the working directory itself (\<^verbatim>\<open>Path('.')\<close>). Components \<^verbatim>\<open>.\<close> and \<^verbatim>\<open>..\<close> do not
  occur.\<close>

type_synonym path = "string list"

datatype frag =
    Lit string
  | FPath path
  | FKey key
  | FKeys "key set"
  | FVal py_value
  | FShape nat nat

datatype exc_class =
    FileNotFoundError
  | FileExistsError
  | IsADirectoryError
  | NotADirectoryError
  | BoxValueError
  | BoxKeyError
  | ValueError
  | TypeError
  | AttributeError
  | LibraryError string

text \<open>An exception is its class and the text \<^verbatim>\<open>str(e)\<close> gives; the text is kept as
  the pieces of the f-string that built it.\<close>

datatype exc = Exc (cls: exc_class) (msg: "frag list")

datatype level = INFO | WARNING | ERROR

type_synonym log = "(level \<times> frag list) list"

text \<open>\<^verbatim>\<open>not content\<close>: the truth value Python gives an object.\<close>

fun truthy :: "py_value \<Rightarrow> bool" where
  "truthy PNone = False"
| "truthy (PBool b) = b"
| "truthy (PInt i) = (i \<noteq> 0)"
| "truthy (PStr s) = (s \<noteq> [])"
| "truthy (PList xs) = (xs \<noteq> [])"
| "truthy (PDict kvs) = (kvs \<noteq> [])"

text \<open>\<^verbatim>\<open>box.exceptions\<close>: \<^verbatim>\<open>BoxValueError(BoxError, ValueError)\<close>.\<close>

fun is_ValueError :: "exc_class \<Rightarrow> bool" where
  "is_ValueError ValueError = True"
| "is_ValueError BoxValueError = True"
| "is_ValueError _ = False"

section \<open>The file system\<close>

datatype node = File string | Dir

type_synonym fs = "path \<Rightarrow> node option"

definition isdir :: "fs \<Rightarrow> path \<Rightarrow> bool" where
  "isdir fs p = (p = [] \<or> fs p = Some Dir)"

definition exists_path :: "fs \<Rightarrow> path \<Rightarrow> bool" where
  "exists_path fs p = (p = [] \<or> fs p \<noteq> None)"

text \<open>\<^verbatim>\<open>os.path.getsize\<close>: the length of a file; \<open>dsize\<close> is what the platform
  reports for a directory.\<close>

definition getsize :: "nat \<Rightarrow> fs \<Rightarrow> path \<Rightarrow> exc + nat" where
  "getsize dsize fs p =
     (if p = [] then Inr dsize
      else case fs p of
             None \<Rightarrow> Inl (Exc FileNotFoundError [FPath p])
           | Some Dir \<Rightarrow> Inr dsize
           | Some (File c) \<Rightarrow> Inr (length c))"

section \<open>Formatting numbers\<close>

definition digit_char :: "nat \<Rightarrow> char" where
  "digit_char d = ''0123456789'' ! (d mod 10)"

text \<open>\<^verbatim>\<open>str(n)\<close> of a non-negative integer.\<close>

function str_nat :: "nat \<Rightarrow> string" where
  "str_nat n = (if n < 10 then [digit_char n] else str_nat (n div 10) @ [digit_char n])"
  by pat_completeness auto
termination
  by (relation "measure (\<lambda>n. n)") auto

declare str_nat.simps [simp del]

text \<open>The integer nearest to \<open>a / b\<close>, a tie going to the even neighbour.\<close>

definition round_half_even :: "nat \<Rightarrow> nat \<Rightarrow> nat" where
  "round_half_even a b =
     (let q = a div b; r = a mod b
      in if 2 * r < b then q
         else if b < 2 * r then q + 1
         else if even q then q else q + 1)"

function bit_length :: "nat \<Rightarrow> nat" where
  "bit_length n = (if n = 0 then 0 else Suc (bit_length (n div 2)))"
  by pat_completeness auto
termination
  by (relation "measure (\<lambda>n. n)") auto

declare bit_length.simps [simp del]

text \<open>
  \<^verbatim>\<open>size_bytes / 1024\<close> is Python's true division of integers: the double nearest to
  the quotient. Dividing by a power of two only moves the exponent, so the double is
  \<open>to_double n / 2 ^ k\<close>, where \<open>to_double n\<close> is \<open>n\<close> rounded to 53 significant bits.
\<close>

definition to_double :: "nat \<Rightarrow> nat" where
  "to_double n =
     (if n < 2 ^ 53 then n
      else let s = bit_length n - 53 in round_half_even n (2 ^ s) * 2 ^ s)"

text \<open>\<^verbatim>\<open>f"{x:.2f}"\<close> for the double \<open>x = m / d\<close>: the nearest number with two
  decimals, written with its integer part and two digits.\<close>

definition dec2 :: "nat \<Rightarrow> string" where
  "dec2 q = str_nat (q div 100) @ ''.'' @ [digit_char (q div 10), digit_char q]"

definition fmt_2f :: "nat \<Rightarrow> nat \<Rightarrow> string" where
  "fmt_2f m d = dec2 (round_half_even (m * 100) d)"

text \<open>\<^verbatim>\<open>get_size\<close> after \<^verbatim>\<open>os.path.getsize\<close> has returned \<open>size_bytes\<close>.\<close>

definition size_text :: "nat \<Rightarrow> string" where
  "size_text size_bytes =
     (if size_bytes < 1024 then str_nat size_bytes @ '' B''
      else if size_bytes < 1024 ^ 2 then fmt_2f (to_double size_bytes) 1024 @ '' KB''
      else fmt_2f (to_double size_bytes) (1024 ^ 2) @ '' MB'')"

definition get_size :: "nat \<Rightarrow> fs \<Rightarrow> path \<Rightarrow> exc + string" where
  "get_size dsize fs p =
     (case getsize dsize fs p of Inl e \<Rightarrow> Inl e | Inr n \<Rightarrow> Inr (size_text n))"


text \<open>In a file system every entry lies in a directory.\<close>

definition wf_fs :: "fs \<Rightarrow> bool" where
  "wf_fs fs = (\<forall>p. fs p \<noteq> None \<longrightarrow> isdir fs (butlast p))"

text \<open>\<open>extends fs fs'\<close>: \<open>fs'\<close> is \<open>fs\<close> with some new directories.\<close>

definition extends :: "fs \<Rightarrow> fs \<Rightarrow> bool" where
  "extends fs fs' = (\<forall>q. fs' q = fs q \<or> (fs q = None \<and> q \<noteq> [] \<and> fs' q = Some Dir))"

section \<open>Opening, reading and writing files\<close>

text \<open>\<^verbatim>\<open>open(p, 'r')\<close> followed by reading the whole file.\<close>

definition open_r :: "fs \<Rightarrow> path \<Rightarrow> exc + string" where
  "open_r fs p =
     (if isdir fs p then Inl (Exc IsADirectoryError [FPath p])
      else case fs p of
             Some (File c) \<Rightarrow> Inr c
           | _ \<Rightarrow> (if exists_path fs (butlast p) \<and> \<not> isdir fs (butlast p)
                   then Inl (Exc NotADirectoryError [FPath p])
                   else Inl (Exc FileNotFoundError [FPath p])))"

text \<open>
  Opening \<open>p\<close> for writing and letting a library produce the content. The producer
  sees the old content (a mode that appends needs it) and returns what the file holds
  afterwards together with the exception it raised, if any: a serialiser that fails
  half way leaves the file it had opened behind.
\<close>

definition old_content :: "fs \<Rightarrow> path \<Rightarrow> string option" where
  "old_content fs p = (case fs p of Some (File c) \<Rightarrow> Some c | _ \<Rightarrow> None)"

definition write_with ::
  "fs \<Rightarrow> path \<Rightarrow> (string option \<Rightarrow> string \<times> exc option) \<Rightarrow> exc option \<times> fs" where
  "write_with fs p produce =
     (if isdir fs p then (Some (Exc IsADirectoryError [FPath p]), fs)
      else if \<not> exists_path fs (butlast p) then (Some (Exc FileNotFoundError [FPath p]), fs)
      else if \<not> isdir fs (butlast p) then (Some (Exc NotADirectoryError [FPath p]), fs)
      else let (c', r) = produce (old_content fs p)
           in (r, fs(p \<mapsto> File c')))"

text \<open>\<^verbatim>\<open>os.mkdir\<close> and \<^verbatim>\<open>os.makedirs(name, exist_ok=True)\<close> of the standard library,
  which \<^verbatim>\<open>create_directories\<close> calls: the missing ancestors are created first, a
  \<^verbatim>\<open>FileExistsError\<close> of that recursion is passed over, and an error of the last
  \<^verbatim>\<open>mkdir\<close> is passed over when the path is a directory.\<close>

definition mkdir :: "fs \<Rightarrow> path \<Rightarrow> exc option \<times> fs" where
  "mkdir fs p =
     (if exists_path fs p then (Some (Exc FileExistsError [FPath p]), fs)
      else if \<not> exists_path fs (butlast p) then (Some (Exc FileNotFoundError [FPath p]), fs)
      else if \<not> isdir fs (butlast p) then (Some (Exc NotADirectoryError [FPath p]), fs)
      else (None, fs(p \<mapsto> Dir)))"

definition mkdir_exist_ok :: "fs \<Rightarrow> path \<Rightarrow> exc option \<times> fs" where
  "mkdir_exist_ok fs p =
     (case mkdir fs p of
        (None, fs') \<Rightarrow> (None, fs')
      | (Some e, fs') \<Rightarrow> if isdir fs' p then (None, fs') else (Some e, fs'))"

function makedirs :: "fs \<Rightarrow> path \<Rightarrow> exc option \<times> fs" where
  "makedirs fs p =
     (if butlast p \<noteq> [] \<and> \<not> exists_path fs (butlast p) then
        (case makedirs fs (butlast p) of
           (None, fs1) \<Rightarrow> mkdir_exist_ok fs1 p
         | (Some e, fs1) \<Rightarrow>
             if cls e = FileExistsError then mkdir_exist_ok fs1 p else (Some e, fs1))
      else mkdir_exist_ok fs p)"
  by pat_completeness auto
termination
  by (relation "measure (\<lambda>(fs, p). length p)") (auto simp: length_greater_0_conv [symmetric] simp del: length_greater_0_conv)

declare makedirs.simps [simp del]

section \<open>The libraries the helpers call\<close>

text \<open>
  PyYAML, python-box, json, joblib and pandas are not part of the repository. What they
  compute is a parameter of the model, so every theorem holds whatever they do:
  a parser returns a value or raises; a serialiser returns the text it wrote and the
  exception it raised, if any. Keyword arguments are passed through as they are.
\<close>

type_synonym kwargs = "(string \<times> py_value) list"

record ('df, 'obj) lib =
  dir_size :: nat
  yaml_safe_load :: "string \<Rightarrow> exc + py_value"
  config_box :: "py_value \<Rightarrow> exc + py_value"
  box_getattr :: "py_value \<Rightarrow> string \<Rightarrow> exc + py_value"
  json_dump :: "(key \<times> py_value) list \<Rightarrow> int \<Rightarrow> string \<times> exc option"
  json_load :: "string \<Rightarrow> exc + py_value"
  joblib_dump :: "'obj \<Rightarrow> path \<Rightarrow> string \<times> exc option"
  joblib_load :: "string \<Rightarrow> exc + 'obj"
  read_csv :: "string \<Rightarrow> kwargs \<Rightarrow> exc + 'df"
  to_csv :: "'df \<Rightarrow> kwargs \<Rightarrow> string option \<Rightarrow> string \<times> exc option"
  df_columns :: "'df \<Rightarrow> key list"
  df_shape :: "'df \<Rightarrow> nat \<times> nat"
  col_dtype :: "'df \<Rightarrow> key \<Rightarrow> exc + string"
  is_dtype_equal :: "string \<Rightarrow> py_value \<Rightarrow> bool"

section \<open>The state: files and log\<close>

text \<open>The records the logger receives are kept apart from the files, in the order
  they were logged.\<close>

record state =
  files :: fs
  logged :: log

definition log_to :: "level \<Rightarrow> frag list \<Rightarrow> state \<Rightarrow> state" where
  "log_to l m st = st\<lparr>logged := logged st @ [(l, m)]\<rparr>"


section \<open>common.py\<close>

subsection \<open>The decorator \<^verbatim>\<open>@ensure_annotations\<close>\<close>

text \<open>
  Every helper of \<^verbatim>\<open>common.py\<close> is decorated. The decorator tests each argument, in
  the order of the parameters, and then the value returned, with
  \<^verbatim>\<open>isinstance(value, annotation)\<close>. A plain class (\<^verbatim>\<open>Path\<close>, \<^verbatim>\<open>dict\<close>, \<^verbatim>\<open>bool\<close>,
  \<^verbatim>\<open>int\<close>, \<^verbatim>\<open>str\<close>, \<^verbatim>\<open>pd.DataFrame\<close>, \<^verbatim>\<open>ConfigBox\<close>) is what the type of the
  model's value already says, so the test passes, and \<^verbatim>\<open>Optional[dict]\<close> accepts
  \<^verbatim>\<open>None\<close> and a dictionary. For \<^verbatim>\<open>typing.Any\<close> and for a subscripted generic such as
  \<^verbatim>\<open>List[Path]\<close> the test itself raises \<^verbatim>\<open>TypeError\<close>. The helpers whose annotations are
  all plain classes (\<^verbatim>\<open>read_yaml\<close>, \<^verbatim>\<open>save_json\<close>, \<^verbatim>\<open>load_json\<close>, \<^verbatim>\<open>load_csv\<close>,
  \<^verbatim>\<open>save_csv\<close>, \<^verbatim>\<open>validate_data_schema\<close>, \<^verbatim>\<open>get_size\<close>) are their bodies.
\<close>

datatype annotation =
    PlainClass string
  | TypingAny
  | TypingList annotation
  | TypingOptional annotation

fun isinstance_error :: "annotation \<Rightarrow> exc option" where
  "isinstance_error (PlainClass c) = None"
| "isinstance_error TypingAny =
     Some (Exc TypeError [Lit ''typing.Any cannot be used with isinstance()''])"
| "isinstance_error (TypingList a) =
     Some (Exc TypeError [Lit ''Subscripted generics cannot be used with class and instance checks''])"
| "isinstance_error (TypingOptional a) = isinstance_error a"

fun check_annotations :: "annotation list \<Rightarrow> exc option" where
  "check_annotations [] = None"
| "check_annotations (a # rest) =
     (case isinstance_error a of Some e \<Rightarrow> Some e | None \<Rightarrow> check_annotations rest)"

subsection \<open>\<^verbatim>\<open>read_yaml\<close>\<close>

text \<open>The handler \<^verbatim>\<open>except Exception as e\<close>: log the error, raise \<open>e\<close> again.\<close>

definition read_yaml_except :: "state \<Rightarrow> path \<Rightarrow> exc \<Rightarrow> (exc + py_value) \<times> state" where
  "read_yaml_except st path_to_yaml e =
     (Inl e, log_to ERROR ([Lit ''Error reading YAML at '', FPath path_to_yaml, Lit '': ''] @ msg e) st)"

definition read_yaml :: "('df, 'obj) lib \<Rightarrow> state \<Rightarrow> path \<Rightarrow> (exc + py_value) \<times> state" where
  "read_yaml L st path_to_yaml =
     (case open_r (files st) path_to_yaml of
        Inl e \<Rightarrow> read_yaml_except st path_to_yaml e
      | Inr yaml_file \<Rightarrow>
          (case yaml_safe_load L yaml_file of
             Inl e \<Rightarrow> read_yaml_except st path_to_yaml e
           | Inr content \<Rightarrow>
               if \<not> truthy content
               then read_yaml_except st path_to_yaml (Exc BoxValueError [Lit ''YAML file is empty''])
               else let st1 = log_to INFO [Lit ''YAML loaded: '', FPath path_to_yaml] st
                    in case config_box L content of
                         Inl e \<Rightarrow> read_yaml_except st1 path_to_yaml e
                       | Inr box \<Rightarrow> (Inr box, st1)))"

subsection \<open>\<^verbatim>\<open>create_directories\<close>\<close>

text \<open>The loop of the function.\<close>

fun create_directories_body :: "state \<Rightarrow> path list \<Rightarrow> bool \<Rightarrow> exc option \<times> state" where
  "create_directories_body st [] verbose = (None, st)"
| "create_directories_body st (path # rest) verbose =
     (case makedirs (files st) path of
        (Some e, fs1) \<Rightarrow> (Some e, st\<lparr>files := fs1\<rparr>)
      | (None, fs1) \<Rightarrow>
          create_directories_body
            (if verbose then log_to INFO [Lit ''Created directory: '', FPath path] (st\<lparr>files := fs1\<rparr>)
             else st\<lparr>files := fs1\<rparr>)
            rest verbose)"

text \<open>The decorated function: \<^verbatim>\<open>path_to_directories: List[Path], verbose: bool\<close>.\<close>

definition create_directories :: "state \<Rightarrow> path list \<Rightarrow> bool \<Rightarrow> exc option \<times> state" where
  "create_directories st path_to_directories verbose =
     (case check_annotations [TypingList (PlainClass ''Path''), PlainClass ''bool''] of
        Some e \<Rightarrow> (Some e, st)
      | None \<Rightarrow> create_directories_body st path_to_directories verbose)"

subsection \<open>JSON, binary and CSV helpers\<close>

text \<open>A helper that writes \<open>path\<close> and then logs \<^verbatim>\<open>get_size(path)\<close>.\<close>

definition write_and_log ::
  "('df, 'obj) lib \<Rightarrow> state \<Rightarrow> path \<Rightarrow> (string option \<Rightarrow> string \<times> exc option) \<Rightarrow>
     (string \<Rightarrow> frag list) \<Rightarrow> exc option \<times> state" where
  "write_and_log L st path produce message =
     (case write_with (files st) path produce of
        (Some e, fs1) \<Rightarrow> (Some e, st\<lparr>files := fs1\<rparr>)
      | (None, fs1) \<Rightarrow>
          (case get_size (dir_size L) fs1 path of
             Inl e \<Rightarrow> (Some e, st\<lparr>files := fs1\<rparr>)
           | Inr sz \<Rightarrow> (None, log_to INFO (message sz) (st\<lparr>files := fs1\<rparr>))))"

definition save_json ::
  "('df, 'obj) lib \<Rightarrow> state \<Rightarrow> path \<Rightarrow> (key \<times> py_value) list \<Rightarrow> int \<Rightarrow> exc option \<times> state" where
  "save_json L st path data indent =
     write_and_log L st path (\<lambda>old. json_dump L data indent)
       (\<lambda>sz. [Lit ''JSON saved: '', FPath path, Lit '' (~'', Lit sz, Lit '')''])"

definition load_json :: "('df, 'obj) lib \<Rightarrow> state \<Rightarrow> path \<Rightarrow> (exc + py_value) \<times> state" where
  "load_json L st path =
     (case open_r (files st) path of
        Inl e \<Rightarrow> (Inl e, st)
      | Inr f \<Rightarrow>
          (case json_load L f of
             Inl e \<Rightarrow> (Inl e, st)
           | Inr content \<Rightarrow>
               let st1 = log_to INFO [Lit ''JSON loaded: '', FPath path] st
               in case config_box L content of
                    Inl e \<Rightarrow> (Inl e, st1)
                  | Inr box \<Rightarrow> (Inr box, st1)))"

definition save_bin_body :: "('df, 'obj) lib \<Rightarrow> state \<Rightarrow> 'obj \<Rightarrow> path \<Rightarrow> exc option \<times> state" where
  "save_bin_body L st data path =
     write_and_log L st path (\<lambda>old. joblib_dump L data path)
       (\<lambda>sz. [Lit ''Binary saved: '', FPath path, Lit '' (~'', Lit sz, Lit '')''])"

text \<open>The decorated function: \<^verbatim>\<open>data: Any, path: Path\<close>.\<close>

definition save_bin :: "('df, 'obj) lib \<Rightarrow> state \<Rightarrow> 'obj \<Rightarrow> path \<Rightarrow> exc option \<times> state" where
  "save_bin L st data path =
     (case check_annotations [TypingAny, PlainClass ''Path''] of
        Some e \<Rightarrow> (Some e, st)
      | None \<Rightarrow> save_bin_body L st data path)"

definition load_bin_body :: "('df, 'obj) lib \<Rightarrow> state \<Rightarrow> path \<Rightarrow> (exc + 'obj) \<times> state" where
  "load_bin_body L st path =
     (case open_r (files st) path of
        Inl e \<Rightarrow> (Inl e, st)
      | Inr f \<Rightarrow>
          (case joblib_load L f of
             Inl e \<Rightarrow> (Inl e, st)
           | Inr data \<Rightarrow> (Inr data, log_to INFO [Lit ''Binary loaded: '', FPath path] st)))"

text \<open>The decorated function: \<^verbatim>\<open>path: Path\<close>, returning \<^verbatim>\<open>Any\<close>; the value returned
  is tested after the body has run.\<close>

definition load_bin :: "('df, 'obj) lib \<Rightarrow> state \<Rightarrow> path \<Rightarrow> (exc + 'obj) \<times> state" where
  "load_bin L st path =
     (case check_annotations [PlainClass ''Path''] of
        Some e \<Rightarrow> (Inl e, st)
      | None \<Rightarrow>
          (case load_bin_body L st path of
             (Inl e, st1) \<Rightarrow> (Inl e, st1)
           | (Inr data, st1) \<Rightarrow>
               (case isinstance_error TypingAny of
                  Some e \<Rightarrow> (Inl e, st1)
                | None \<Rightarrow> (Inr data, st1))))"

definition load_csv ::
  "('df, 'obj) lib \<Rightarrow> state \<Rightarrow> path \<Rightarrow> kwargs \<Rightarrow> (exc + 'df) \<times> state" where
  "load_csv L st path kwargs =
     (case open_r (files st) path of
        Inl e \<Rightarrow> (Inl e, st)
      | Inr f \<Rightarrow>
          (case read_csv L f kwargs of
             Inl e \<Rightarrow> (Inl e, st)
           | Inr df \<Rightarrow>
               (Inr df,
                log_to INFO [Lit ''CSV loaded: '', FPath path, Lit '' | Shape: '',
                             FShape (fst (df_shape L df)) (snd (df_shape L df))] st)))"

definition save_csv ::
  "('df, 'obj) lib \<Rightarrow> state \<Rightarrow> 'df \<Rightarrow> path \<Rightarrow> kwargs \<Rightarrow> exc option \<times> state" where
  "save_csv L st data path kwargs =
     write_and_log L st path (to_csv L data kwargs)
       (\<lambda>sz. [Lit ''CSV saved: '', FPath path, Lit '' | Size: '', Lit sz])"

subsection \<open>\<^verbatim>\<open>validate_data_schema\<close>\<close>

text \<open>\<^verbatim>\<open>hash(x)\<close>: lists and mappings are not hashable.\<close>

fun hkey :: "py_value \<Rightarrow> key option" where
  "hkey PNone = Some KNone"
| "hkey (PBool b) = Some (KNum (if b then 1 else 0))"
| "hkey (PInt i) = Some (KNum i)"
| "hkey (PStr s) = Some (KStr s)"
| "hkey (PList xs) = None"
| "hkey (PDict kvs) = None"

text \<open>\<^verbatim>\<open>set(x)\<close>: the elements of a list, the characters of a string, the keys of a
  mapping; anything else is not iterable.\<close>

fun py_set :: "py_value \<Rightarrow> exc + key set" where
  "py_set (PList xs) =
     (if list_all (\<lambda>x. hkey x \<noteq> None) xs then Inr (set (map (\<lambda>x. the (hkey x)) xs))
      else Inl (Exc TypeError [Lit ''unhashable type'']))"
| "py_set (PStr s) = Inr (set (map (\<lambda>c. KStr [c]) s))"
| "py_set (PDict kvs) = Inr (set (map fst kvs))"
| "py_set v = Inl (Exc TypeError [Lit ''object is not iterable''])"

text \<open>\<^verbatim>\<open>x.items()\<close>.\<close>

fun py_items :: "py_value \<Rightarrow> exc + (key \<times> py_value) list" where
  "py_items (PDict kvs) = Inr kvs"
| "py_items v = Inl (Exc AttributeError [Lit ''object has no attribute items''])"

text \<open>The loop over \<^verbatim>\<open>schema.dtypes.items()\<close>.\<close>

fun check_dtypes ::
  "('df, 'obj) lib \<Rightarrow> state \<Rightarrow> 'df \<Rightarrow> (key \<times> py_value) list \<Rightarrow> exc option \<times> state" where
  "check_dtypes L st df [] = (None, st)"
| "check_dtypes L st df ((col, dtype) # rest) =
     (if col \<in> set (df_columns L df) then
        (case col_dtype L df col of
           Inl e \<Rightarrow> (Some e, st)
         | Inr actual \<Rightarrow>
             if \<not> is_dtype_equal L actual dtype
             then check_dtypes L
                    (log_to WARNING [Lit (''Column '' @ [CHR 0x27]), FKey col,
                                     Lit (CHR 0x27 # '' has dtype ''), Lit actual,
                                     Lit '', expected '', FVal dtype] st)
                    df rest
             else check_dtypes L st df rest)
      else check_dtypes L st df rest)"

text \<open>The declared columns of the frame whose dtype differs from the declared one.\<close>

definition mismatches :: "('df, 'obj) lib \<Rightarrow> 'df \<Rightarrow> (key \<times> py_value) list \<Rightarrow> (key \<times> py_value) list" where
  "mismatches L df items =
     filter (\<lambda>(col, dtype). col \<in> set (df_columns L df)
               \<and> (case col_dtype L df col of Inl e \<Rightarrow> False | Inr actual \<Rightarrow> \<not> is_dtype_equal L actual dtype))
       items"

definition validate_data_schema ::
  "('df, 'obj) lib \<Rightarrow> state \<Rightarrow> 'df \<Rightarrow> path \<Rightarrow> (exc + bool) \<times> state" where
  "validate_data_schema L st df schema_path =
     (case read_yaml L st schema_path of
        (Inl e, st1) \<Rightarrow> (Inl e, st1)
      | (Inr schema, st1) \<Rightarrow>
          (case box_getattr L schema ''required_columns'' of
             Inl e \<Rightarrow> (Inl e, st1)
           | Inr required_columns \<Rightarrow>
               (case py_set required_columns of
                  Inl e \<Rightarrow> (Inl e, st1)
                | Inr required \<Rightarrow>
                    let missing_cols = required - set (df_columns L df)
                    in if missing_cols \<noteq> {} then
                         (Inl (Exc ValueError [Lit ''Schema validation failed. Missing: '', FKeys missing_cols]),
                          log_to ERROR [Lit ''Missing columns: '', FKeys missing_cols] st1)
                       else
                         (case box_getattr L schema ''dtypes'' of
                            Inl e \<Rightarrow> (Inl e, st1)
                          | Inr dtypes \<Rightarrow>
                              (case py_items dtypes of
                                 Inl e \<Rightarrow> (Inl e, st1)
                               | Inr items \<Rightarrow>
                                   (case check_dtypes L st1 df items of
                                      (Some e, st2) \<Rightarrow> (Inl e, st2)
                                    | (None, st2) \<Rightarrow>
                                        (Inr True, log_to INFO [Lit ''Data schema validation passed''] st2)))))))"

subsection \<open>\<^verbatim>\<open>save_model\<close> and \<^verbatim>\<open>load_model\<close>\<close>

text \<open>\<^verbatim>\<open>Path(f"{path}.metadata.json")\<close>; the working directory prints as \<^verbatim>\<open>.\<close>.\<close>

definition metadata_path :: "path \<Rightarrow> path" where
  "metadata_path path =
     (if path = [] then [''..metadata.json'']
      else butlast path @ [last path @ ''.metadata.json''])"

definition save_model_body ::
  "('df, 'obj) lib \<Rightarrow> state \<Rightarrow> 'obj \<Rightarrow> path \<Rightarrow> (key \<times> py_value) list option \<Rightarrow> exc option \<times> state" where
  "save_model_body L st model path metadata =
     (case save_bin L st model path of
        (Some e, st1) \<Rightarrow> (Some e, st1)
      | (None, st1) \<Rightarrow>
          (case metadata of
             None \<Rightarrow> (None, st1)
           | Some m \<Rightarrow>
               if m \<noteq> [] then
                 (case save_json L st1 (metadata_path path) m 4 of
                    (Some e, st2) \<Rightarrow> (Some e, st2)
                  | (None, st2) \<Rightarrow>
                      (None, log_to INFO [Lit ''Model metadata saved: '', FPath (metadata_path path)] st2))
               else (None, st1)))"

text \<open>The decorated function: \<^verbatim>\<open>model: Any, path: Path, metadata: Optional[dict]\<close>.\<close>

definition save_model ::
  "('df, 'obj) lib \<Rightarrow> state \<Rightarrow> 'obj \<Rightarrow> path \<Rightarrow> (key \<times> py_value) list option \<Rightarrow> exc option \<times> state" where
  "save_model L st model path metadata =
     (case check_annotations [TypingAny, PlainClass ''Path'', TypingOptional (PlainClass ''dict'')] of
        Some e \<Rightarrow> (Some e, st)
      | None \<Rightarrow> save_model_body L st model path metadata)"

definition load_model_body :: "('df, 'obj) lib \<Rightarrow> state \<Rightarrow> path \<Rightarrow> (exc + 'obj) \<times> state" where
  "load_model_body L st path =
     (case load_bin L st path of
        (Inl e, st1) \<Rightarrow> (Inl e, st1)
      | (Inr model, st1) \<Rightarrow>
          if exists_path (files st1) (metadata_path path) then
            (case load_json L st1 (metadata_path path) of
               (Inl e, st2) \<Rightarrow> (Inl e, st2)
             | (Inr metadata, st2) \<Rightarrow>
                 (Inr model, log_to INFO [Lit ''Model metadata: '', FVal metadata] st2))
          else (Inr model, st1))"

text \<open>The decorated function: \<^verbatim>\<open>path: Path\<close>, returning \<^verbatim>\<open>Any\<close>.\<close>

definition load_model :: "('df, 'obj) lib \<Rightarrow> state \<Rightarrow> path \<Rightarrow> (exc + 'obj) \<times> state" where
  "load_model L st path =
     (case check_annotations [PlainClass ''Path''] of
        Some e \<Rightarrow> (Inl e, st)
      | None \<Rightarrow>
          (case load_model_body L st path of
             (Inl e, st1) \<Rightarrow> (Inl e, st1)
           | (Inr model, st1) \<Rightarrow>
               (case isinstance_error TypingAny of
                  Some e \<Rightarrow> (Inl e, st1)
                | None \<Rightarrow> (Inr model, st1))))"


section \<open>logger.py\<close>

text \<open>
  \<^verbatim>\<open>setup_logger\<close> takes the directory as a string. \<^verbatim>\<open>datetime.now()\<close> is the
  argument \<open>now\<close>; the handlers the logger already has and whether an ancestor logger
  has handlers (\<^verbatim>\<open>logger.hasHandlers()\<close>) are arguments too.
\<close>

record date =
  year :: nat
  month :: nat
  day :: nat

definition zfill :: "nat \<Rightarrow> string \<Rightarrow> string" where
  "zfill w s = replicate (w - length s) CHR ''0'' @ s"

text \<open>\<^verbatim>\<open>strftime('%Y-%m-%d')\<close>.\<close>

definition strftime_ymd :: "date \<Rightarrow> string" where
  "strftime_ymd d =
     zfill 4 (str_nat (year d)) @ ''-'' @ zfill 2 (str_nat (month d)) @ ''-'' @ zfill 2 (str_nat (day d))"

text \<open>\<^verbatim>\<open>os.path.join(a, b)\<close> on POSIX.\<close>

definition path_join :: "string \<Rightarrow> string \<Rightarrow> string" where
  "path_join a b =
     (if b \<noteq> [] \<and> hd b = CHR ''/'' then b
      else if a = [] \<or> last a = CHR ''/'' then a @ b
      else a @ ''/'' @ b)"

fun split_on :: "char \<Rightarrow> string \<Rightarrow> string list" where
  "split_on c [] = [[]]"
| "split_on c (x # xs) =
     (if x = c then [] # split_on c xs
      else case split_on c xs of
             w # ws \<Rightarrow> (x # w) # ws
           | [] \<Rightarrow> [[x]])"

text \<open>The components of a path given as a string: empty components and \<^verbatim>\<open>.\<close> name
  nothing.\<close>

definition path_of_str :: "string \<Rightarrow> path" where
  "path_of_str s = filter (\<lambda>c. c \<noteq> [] \<and> c \<noteq> ''.'') (split_on CHR ''/'' s)"

datatype handler =
    RotatingFileHandler (filename: string) (maxBytes: int) (backupCount: int)
      (encoding: string) (file_format: string)
  | StreamHandler (stream: string) (stream_format: string)

record logger =
  logger_name :: string
  logger_level :: int
  handlers :: "handler list"

definition log_format :: string where
  "log_format =
     ''[%(asctime)s] [%(levelname)s] '' @ ''[%(module)s.%(funcName)s:%(lineno)d] - %(message)s''"

text \<open>A file handler opens its file for appending when it is built.\<close>

definition open_append :: "string option \<Rightarrow> string \<times> exc option" where
  "open_append old = (case old of Some c \<Rightarrow> (c, None) | None \<Rightarrow> ([], None))"

definition setup_logger ::
  "fs \<Rightarrow> date \<Rightarrow> handler list \<Rightarrow> bool \<Rightarrow>
     string \<Rightarrow> int \<Rightarrow> string \<Rightarrow> bool \<Rightarrow> int \<Rightarrow> int \<Rightarrow> (exc + logger) \<times> fs" where
  "setup_logger fs now old_handlers inherited name log_level log_dir console_output max_log_size backup_count =
     (if log_dir = [] then (Inl (Exc FileNotFoundError [Lit log_dir]), fs)
      else case makedirs fs (path_of_str log_dir) of
        (Some e, fs1) \<Rightarrow> (Inl e, fs1)
      | (None, fs1) \<Rightarrow>
          let cleared = (if old_handlers \<noteq> [] \<or> inherited then [] else old_handlers);
              log_filename = strftime_ymd now @ ''.log'';
              log_filepath = path_join log_dir log_filename;
              file_handler =
                RotatingFileHandler log_filepath (max_log_size * 1024 * 1024) backup_count
                  ''utf-8'' log_format
          in case write_with fs1 (path_of_str log_filepath) open_append of
               (Some e, fs2) \<Rightarrow> (Inl e, fs2)
             | (None, fs2) \<Rightarrow>
                 (Inr \<lparr>logger_name = name, logger_level = log_level,
                       handlers = cleared @ [file_handler]
                         @ (if console_output then [StreamHandler ''sys.stdout'' log_format] else [])\<rparr>,
                  fs2))"


section \<open>A small instance of the libraries\<close>

text \<open>
  To run the helpers on concrete inputs the libraries need values. \<open>sample_lib\<close> is one
  choice: its YAML, JSON and box functions have the results of the real ones on the few
  inputs used below and raise elsewhere; a data frame has no rows and is the list of its
  columns, each with the name of its dtype, and the CSV functions write and read the
  header line as pandas does for such a frame (\<^verbatim>\<open>to_csv\<close> puts the index column
  first unless \<^verbatim>\<open>index=False\<close> is given, \<^verbatim>\<open>read_csv\<close> names an unnamed column by
  its position); joblib is a stand-in, and a model object is a string.
\<close>

definition dq :: char where
  "dq = CHR 0x22"

definition nl :: char where
  "nl = CHR 0x0A"

definition sample_schema_text :: string where
  "sample_schema_text =
     ''required_columns: [customer_id, last_purchase_date]'' @ [nl] @
     ''dtypes: {customer_id: str, churn: int}'' @ [nl]"

definition sample_schema :: py_value where
  "sample_schema =
     PDict [(KStr ''required_columns'', PList [PStr ''customer_id'', PStr ''last_purchase_date'']),
            (KStr ''dtypes'', PDict [(KStr ''customer_id'', PStr ''str''), (KStr ''churn'', PStr ''int'')])]"

definition sample_metadata :: "(key \<times> py_value) list" where
  "sample_metadata = [(KStr ''algorithm'', PStr ''XGBoost'')]"

definition sample_metadata_text :: string where
  "sample_metadata_text =
     ''{'' @ [nl] @ ''    '' @ [dq] @ ''algorithm'' @ [dq] @ '': '' @ [dq] @ ''XGBoost'' @ [dq] @ [nl] @ ''}''"

definition sample_columns_only_text :: string where
  "sample_columns_only_text = ''required_columns: [customer_id]'' @ [nl]"

definition sample_columns_only :: py_value where
  "sample_columns_only = PDict [(KStr ''required_columns'', PList [PStr ''customer_id''])]"

definition sample_int_key :: "(key \<times> py_value) list" where
  "sample_int_key = [(KNum 1, PStr ''a'')]"

definition sample_int_key_text :: string where
  "sample_int_key_text =
     ''{'' @ [nl] @ ''    '' @ [dq] @ ''1'' @ [dq] @ '': '' @ [dq] @ ''a'' @ [dq] @ [nl] @ ''}''"

definition sample_yaml_safe_load :: "string \<Rightarrow> exc + py_value" where
  "sample_yaml_safe_load t =
     (if t = [] then Inr PNone
      else if t = ''false'' then Inr (PBool False)
      else if t = ''0'' then Inr (PInt 0)
      else if t = [dq, dq] then Inr (PStr [])
      else if t = ''{}'' then Inr (PDict [])
      else if t = ''[]'' then Inr (PList [])
      else if t = ''42'' then Inr (PInt 42)
      else if t = sample_schema_text then Inr sample_schema
      else if t = sample_metadata_text then Inr (PDict sample_metadata)
      else if t = sample_columns_only_text then Inr sample_columns_only
      else Inl (Exc (LibraryError ''YAMLError'') [Lit ''could not parse'']))"

definition sample_config_box :: "py_value \<Rightarrow> exc + py_value" where
  "sample_config_box v =
     (case v of
        PDict kvs \<Rightarrow> Inr (PDict kvs)
      | _ \<Rightarrow> Inl (Exc BoxValueError [Lit ''First argument must be mapping or iterable'']))"

definition sample_box_getattr :: "py_value \<Rightarrow> string \<Rightarrow> exc + py_value" where
  "sample_box_getattr v item =
     (case v of
        PDict kvs \<Rightarrow>
          (case map_of kvs (KStr item) of
             Some x \<Rightarrow> Inr x
           | None \<Rightarrow> Inl (Exc BoxKeyError [Lit item]))
      | _ \<Rightarrow> Inl (Exc AttributeError [Lit item]))"

definition sample_json_dump :: "(key \<times> py_value) list \<Rightarrow> int \<Rightarrow> string \<times> exc option" where
  "sample_json_dump d indent =
     (if d = [] then (''{}'', None)
      else if d = sample_metadata \<and> indent = 4 then (sample_metadata_text, None)
      else if d = sample_int_key \<and> indent = 4 then (sample_int_key_text, None)
      else ([], Some (Exc TypeError [Lit ''Object is not JSON serializable''])))"

definition sample_json_load :: "string \<Rightarrow> exc + py_value" where
  "sample_json_load t =
     (if t = ''{}'' then Inr (PDict [])
      else if t = sample_metadata_text then Inr (PDict sample_metadata)
      else if t = sample_int_key_text then Inr (PDict [(KStr ''1'', PStr ''a'')])
      else Inl (Exc (LibraryError ''JSONDecodeError'') [Lit ''Expecting value'']))"

definition sample_joblib_load :: "string \<Rightarrow> exc + string" where
  "sample_joblib_load t =
     (if take 7 t = ''joblib:'' then Inr (drop 7 t)
      else Inl (Exc (LibraryError ''UnpicklingError'') [Lit ''invalid load key'']))"

definition sample_col_dtype :: "(key \<times> string) list \<Rightarrow> key \<Rightarrow> exc + string" where
  "sample_col_dtype df col =
     (case filter (\<lambda>c. fst c = col) df of
        [] \<Rightarrow> Inl (Exc (LibraryError ''KeyError'') [FKey col])
      | [c] \<Rightarrow> Inr (snd c)
      | _ \<Rightarrow> Inl (Exc AttributeError [Lit ''DataFrame object has no attribute dtype'']))"

fun join_commas :: "string list \<Rightarrow> string" where
  "join_commas [] = []"
| "join_commas [x] = x"
| "join_commas (x # y # rest) = x @ '','' @ join_commas (y # rest)"

definition column_name :: "key \<times> string \<Rightarrow> string" where
  "column_name c = (case fst c of KStr n \<Rightarrow> n | _ \<Rightarrow> [])"

definition sample_to_csv :: "(key \<times> string) list \<Rightarrow> kwargs \<Rightarrow> string option \<Rightarrow> string \<times> exc option" where
  "sample_to_csv df kw old =
     ((if map_of kw ''index'' = Some (PBool False) then [] else '','')
        @ join_commas (map column_name df) @ [nl],
      None)"

definition sample_read_csv :: "string \<Rightarrow> kwargs \<Rightarrow> exc + (key \<times> string) list" where
  "sample_read_csv t kw =
     Inr (map (\<lambda>(i, n). (KStr (if n = [] then ''Unnamed: '' @ str_nat i else n), ''object''))
            (enumerate 0 (split_on CHR '','' (takeWhile (\<lambda>c. c \<noteq> nl) t))))"

definition sample_lib :: "((key \<times> string) list, string) lib" where
  "sample_lib =
     \<lparr>dir_size = 4096,
      yaml_safe_load = sample_yaml_safe_load,
      config_box = sample_config_box,
      box_getattr = sample_box_getattr,
      json_dump = sample_json_dump,
      json_load = sample_json_load,
      joblib_dump = (\<lambda>x p. (''joblib:'' @ x, None)),
      joblib_load = sample_joblib_load,
      read_csv = sample_read_csv,
      to_csv = sample_to_csv,
      df_columns = map fst,
      df_shape = (\<lambda>df. (0, length df)),
      col_dtype = sample_col_dtype,
      is_dtype_equal = (\<lambda>actual expected. expected = PStr actual)\<rparr>"

text \<open>A state with a directory \<^verbatim>\<open>schemas\<close> that holds the schema of the docstring,
  and an empty log.\<close>

definition sample_state :: state where
  "sample_state =
     \<lparr>files = [[''schemas''] \<mapsto> Dir,
               [''schemas'', ''churn.yaml''] \<mapsto> File sample_schema_text,
               [''empty.yaml''] \<mapsto> File [],
               [''false.yaml''] \<mapsto> File ''false''],
      logged = []\<rparr>"


section \<open>Properties of get_size\<close>

lemma round_half_even_near:
  assumes "0 < b"
  shows "2 * \<bar>int a - int b * int (round_half_even a b)\<bar> \<le> int b"
proof -
  define q where "q = a div b"
  define r where "r = a mod b"
  have a: "int a = int b * int q + int r"
    unfolding q_def r_def by (metis mult_div_mod_eq of_nat_add of_nat_mult)
  have r: "r < b" unfolding r_def using assms by simp
  show ?thesis
    using a r
    by (auto simp: round_half_even_def Let_def q_def [symmetric] r_def [symmetric] algebra_simps)
qed

lemma to_double_small: "n < 2 ^ 53 \<Longrightarrow> to_double n = n"
  by (simp add: to_double_def)

lemma getsize_file: "p \<noteq> [] \<Longrightarrow> fs p = Some (File c) \<Longrightarrow> getsize d fs p = Inr (length c)"
  by (simp add: getsize_def)

text \<open>
  C3: for a file of \<open>n\<close> bytes \<^verbatim>\<open>get_size\<close> returns the byte count followed by
  \<^verbatim>\<open> B\<close> when \<open>n < 1024\<close>, the number with two decimals nearest to \<open>n / 1024\<close>
  followed by \<^verbatim>\<open> KB\<close> when \<open>1024 \<le> n < 1024\<^sup>2\<close>, and the number with two decimals
  nearest to the double \<open>n / 1024\<^sup>2\<close> followed by \<^verbatim>\<open> MB\<close> from \<open>1024\<^sup>2\<close> on (the
  double is the quotient itself below \<open>2\<^sup>5\<^sup>3\<close> bytes); 1023 bytes give \<^verbatim>\<open>1023 B\<close> and
  1024 bytes give \<^verbatim>\<open>1.00 KB\<close>.
\<close>

theorem get_size_thresholds:
  assumes "p \<noteq> []" and "fs p = Some (File c)" and "n = length c"
  shows "(n < 1024 \<longrightarrow> get_size d fs p = Inr (str_nat n @ '' B''))
       \<and> (1024 \<le> n \<and> n < 1024 ^ 2 \<longrightarrow>
            (\<exists>q. get_size d fs p = Inr (dec2 q @ '' KB'')
                \<and> 2 * \<bar>100 * int n - 1024 * int q\<bar> \<le> 1024))
       \<and> (1024 ^ 2 \<le> n \<longrightarrow>
            (\<exists>q. get_size d fs p = Inr (dec2 q @ '' MB'')
                \<and> 2 * \<bar>100 * int (to_double n) - 1024 ^ 2 * int q\<bar> \<le> 1024 ^ 2)
            \<and> (n < 2 ^ 53 \<longrightarrow> to_double n = n))
       \<and> size_text 1023 = ''1023 B''
       \<and> size_text 1024 = ''1.00 KB''"
proof -
  have g: "get_size d fs p = Inr (size_text n)"
    using assms by (simp add: get_size_def getsize_file)
  have b: "n < 1024 \<longrightarrow> get_size d fs p = Inr (str_nat n @ '' B'')"
    by (simp add: g size_text_def)
  have kb: "\<exists>q. get_size d fs p = Inr (dec2 q @ '' KB'') \<and> 2 * \<bar>100 * int n - 1024 * int q\<bar> \<le> 1024"
    if "1024 \<le> n" "n < 1024 ^ 2"
  proof -
    have td: "to_double n = n" using that by (simp add: to_double_def)
    have "get_size d fs p = Inr (dec2 (round_half_even (n * 100) 1024) @ '' KB'')"
      using that by (simp add: g size_text_def fmt_2f_def td)
    moreover have "2 * \<bar>100 * int n - 1024 * int (round_half_even (n * 100) 1024)\<bar> \<le> 1024"
      using round_half_even_near [of 1024 "n * 100"] by (simp add: mult.commute)
    ultimately show ?thesis by blast
  qed
  have mb: "\<exists>q. get_size d fs p = Inr (dec2 q @ '' MB'')
               \<and> 2 * \<bar>100 * int (to_double n) - 1024 ^ 2 * int q\<bar> \<le> 1024 ^ 2"
    if "1024 ^ 2 \<le> n"
  proof -
    have "get_size d fs p = Inr (dec2 (round_half_even (to_double n * 100) (1024 ^ 2)) @ '' MB'')"
      using that by (simp add: g size_text_def fmt_2f_def)
    moreover have "2 * \<bar>100 * int (to_double n) - 1024 ^ 2 * int (round_half_even (to_double n * 100) (1024 ^ 2))\<bar> \<le> 1024 ^ 2"
      using round_half_even_near [of "1024 ^ 2" "to_double n * 100"] by (simp add: mult.commute)
    ultimately show ?thesis by blast
  qed
  have e1: "size_text 1023 = ''1023 B''"
    by (simp add: size_text_def str_nat.simps digit_char_def)
  have e2: "size_text 1024 = ''1.00 KB''"
    by (simp add: size_text_def str_nat.simps digit_char_def fmt_2f_def dec2_def to_double_def round_half_even_def)
  show ?thesis using b kb mb e1 e2 to_double_small by blast
qed

theorem get_size_thresholds_witness:
  "get_size 4096 [[''a.bin''] \<mapsto> File (replicate 1023 CHR ''x'')] [''a.bin''] = Inr ''1023 B''
   \<and> (\<exists>q. get_size 4096 [[''b.bin''] \<mapsto> File (replicate 1536 CHR ''x'')] [''b.bin''] = Inr (dec2 q @ '' KB'')
          \<and> 2 * \<bar>100 * int 1536 - 1024 * int q\<bar> \<le> 1024)"
proof -
  have s: "str_nat 1023 = ''1023''"
    by (simp add: str_nat.simps digit_char_def)
  have a: "get_size 4096 [[''a.bin''] \<mapsto> File (replicate 1023 CHR ''x'')] [''a.bin''] = Inr ''1023 B''"
    using get_size_thresholds [of "[''a.bin'']" "[[''a.bin''] \<mapsto> File (replicate 1023 CHR ''x'')]"
        "replicate 1023 CHR ''x''" 1023 4096] s
    by simp
  have b: "\<exists>q. get_size 4096 [[''b.bin''] \<mapsto> File (replicate 1536 CHR ''x'')] [''b.bin''] = Inr (dec2 q @ '' KB'')
          \<and> 2 * \<bar>100 * int 1536 - 1024 * int q\<bar> \<le> 1024"
    using get_size_thresholds [of "[''b.bin'']" "[[''b.bin''] \<mapsto> File (replicate 1536 CHR ''x'')]"
        "replicate 1536 CHR ''x''" 1536 4096]
    by simp
  show ?thesis using a b by blast
qed

section \<open>Properties of read_yaml\<close>

lemma logged_log_to: "logged (log_to l m st) = logged st @ [(l, m)]"
  by (simp add: log_to_def)

lemma files_log_to: "files (log_to l m st) = files st"
  by (simp add: log_to_def)

lemma read_yaml_files: "files (snd (read_yaml L st p)) = files st"
  by (simp add: read_yaml_def read_yaml_except_def files_log_to Let_def split: sum.splits)

text \<open>
  C6: \<^verbatim>\<open>read_yaml\<close> never swallows a failure. When opening the file, parsing it or
  boxing the content raises, and when the content is empty, the error is logged and the
  same exception reaches the caller; a box is returned only when the file was read and
  parsed to content that is not empty.
\<close>

theorem read_yaml_reraises:
  "(open_r (files st) p = Inl e \<longrightarrow>
      fst (read_yaml L st p) = Inl e
      \<and> logged (snd (read_yaml L st p))
          = logged st @ [(ERROR, [Lit ''Error reading YAML at '', FPath p, Lit '': ''] @ msg e)])
   \<and> (open_r (files st) p = Inr t \<and> yaml_safe_load L t = Inl e \<longrightarrow>
      fst (read_yaml L st p) = Inl e
      \<and> logged (snd (read_yaml L st p))
          = logged st @ [(ERROR, [Lit ''Error reading YAML at '', FPath p, Lit '': ''] @ msg e)])
   \<and> (open_r (files st) p = Inr t \<and> yaml_safe_load L t = Inr c \<and> \<not> truthy c \<longrightarrow>
      fst (read_yaml L st p) = Inl (Exc BoxValueError [Lit ''YAML file is empty''])
      \<and> logged (snd (read_yaml L st p))
          = logged st @ [(ERROR, [Lit ''Error reading YAML at '', FPath p, Lit '': '', Lit ''YAML file is empty''])])
   \<and> (open_r (files st) p = Inr t \<and> yaml_safe_load L t = Inr c \<and> truthy c \<and> config_box L c = Inl e \<longrightarrow>
      fst (read_yaml L st p) = Inl e
      \<and> last (logged (snd (read_yaml L st p)))
          = (ERROR, [Lit ''Error reading YAML at '', FPath p, Lit '': ''] @ msg e))
   \<and> (fst (read_yaml L st p) = Inr box \<longrightarrow>
      (\<exists>t c. open_r (files st) p = Inr t \<and> yaml_safe_load L t = Inr c \<and> truthy c
             \<and> config_box L c = Inr box))"
  by (auto simp: read_yaml_def read_yaml_except_def logged_log_to Let_def split: sum.splits)

lemma sample_open_empty: "open_r (files sample_state) [''empty.yaml''] = Inr []"
  by (simp add: open_r_def sample_state_def isdir_def)

theorem read_yaml_reraises_witness:
  "fst (read_yaml sample_lib sample_state [''missing.yaml''])
     = Inl (Exc FileNotFoundError [FPath [''missing.yaml'']])
   \<and> logged (snd (read_yaml sample_lib sample_state [''missing.yaml'']))
     = [(ERROR, [Lit ''Error reading YAML at '', FPath [''missing.yaml''], Lit '': '', FPath [''missing.yaml'']])]
   \<and> fst (read_yaml sample_lib sample_state [''empty.yaml''])
     = Inl (Exc BoxValueError [Lit ''YAML file is empty''])"
proof -
  have o1: "open_r (files sample_state) [''missing.yaml''] = Inl (Exc FileNotFoundError [FPath [''missing.yaml'']])"
    by (simp add: open_r_def sample_state_def isdir_def exists_path_def)
  have y: "yaml_safe_load sample_lib [] = Inr PNone"
    by (simp add: sample_lib_def sample_yaml_safe_load_def)
  have l: "logged sample_state = []"
    by (simp add: sample_state_def)
  show ?thesis
    using read_yaml_reraises [of sample_state "[''missing.yaml'']" "Exc FileNotFoundError [FPath [''missing.yaml'']]" sample_lib]
      read_yaml_reraises [of sample_state "[''empty.yaml'']" _ sample_lib "[]" PNone]
      o1 sample_open_empty y l
    by simp
qed

text \<open>
  C9: \<^verbatim>\<open>read_yaml\<close> raises \<^verbatim>\<open>BoxValueError\<close>, a \<^verbatim>\<open>ValueError\<close>, for every file
  whose parsed top-level value is falsy, not only for an empty file: null, \<^verbatim>\<open>false\<close>,
  \<^verbatim>\<open>0\<close>, the empty string, the empty mapping and the empty list are all falsy, so such
  a document is never returned.
\<close>

theorem read_yaml_falsy:
  assumes "open_r (files st) p = Inr t" and "yaml_safe_load L t = Inr c" and "\<not> truthy c"
  shows "fst (read_yaml L st p) = Inl (Exc BoxValueError [Lit ''YAML file is empty''])
       \<and> is_ValueError (cls (Exc BoxValueError [Lit ''YAML file is empty'']))
       \<and> (\<forall>box. fst (read_yaml L st p) \<noteq> Inr box)
       \<and> \<not> truthy PNone \<and> \<not> truthy (PBool False) \<and> \<not> truthy (PInt 0) \<and> \<not> truthy (PStr [])
       \<and> \<not> truthy (PDict []) \<and> \<not> truthy (PList [])"
  using assms by (simp add: read_yaml_def read_yaml_except_def)

theorem read_yaml_falsy_witness:
  "fst (read_yaml sample_lib sample_state [''false.yaml''])
     = Inl (Exc BoxValueError [Lit ''YAML file is empty''])"
proof -
  have o: "open_r (files sample_state) [''false.yaml''] = Inr ''false''"
    by (simp add: open_r_def sample_state_def isdir_def)
  have y: "yaml_safe_load sample_lib ''false'' = Inr (PBool False)"
    by (simp add: sample_lib_def sample_yaml_safe_load_def)
  show ?thesis
    using read_yaml_falsy [OF o y] by simp
qed


section \<open>Properties of validate_data_schema\<close>

text \<open>
  C1: when the schema has been read and some of its required columns are not among the
  columns of the frame, \<^verbatim>\<open>validate_data_schema\<close> does not return: it raises a
  \<^verbatim>\<open>ValueError\<close> whose message carries exactly the set of required columns that the
  frame lacks, and logs that set as an error.
\<close>

theorem validate_missing_columns:
  assumes "read_yaml L st schema_path = (Inr schema, st1)"
    and "box_getattr L schema ''required_columns'' = Inr required_columns"
    and "py_set required_columns = Inr required"
    and "\<not> required \<subseteq> set (df_columns L df)"
  shows "fst (validate_data_schema L st df schema_path)
           = Inl (Exc ValueError [Lit ''Schema validation failed. Missing: '',
                                  FKeys {c \<in> required. c \<notin> set (df_columns L df)}])
       \<and> logged (snd (validate_data_schema L st df schema_path))
           = logged st1 @ [(ERROR, [Lit ''Missing columns: '', FKeys {c \<in> required. c \<notin> set (df_columns L df)}])]
       \<and> files (snd (validate_data_schema L st df schema_path)) = files st"
proof -
  have d: "required - set (df_columns L df) = {c \<in> required. c \<notin> set (df_columns L df)}"
    by auto
  have ne: "required - set (df_columns L df) \<noteq> {}"
    using assms(4) by auto
  have f: "files st1 = files st"
    using assms(1) read_yaml_files [of L st schema_path] by simp
  show ?thesis
    using assms(1-3) ne f
    by (simp add: validate_data_schema_def Let_def d [symmetric] log_to_def)
qed


lemma sample_read_schema:
  "read_yaml sample_lib sample_state [''schemas'', ''churn.yaml'']
     = (Inr sample_schema,
        log_to INFO [Lit ''YAML loaded: '', FPath [''schemas'', ''churn.yaml'']] sample_state)"
proof -
  have o: "open_r (files sample_state) [''schemas'', ''churn.yaml''] = Inr sample_schema_text"
    by (simp add: open_r_def sample_state_def isdir_def)
  have ne: "sample_schema_text \<noteq> []" "sample_schema_text \<noteq> ''false''" "sample_schema_text \<noteq> ''0''"
    "sample_schema_text \<noteq> [dq, dq]" "sample_schema_text \<noteq> ''{}''" "sample_schema_text \<noteq> ''[]''"
    "sample_schema_text \<noteq> ''42''"
    by (simp_all add: sample_schema_text_def)
  have y: "yaml_safe_load sample_lib sample_schema_text = Inr sample_schema"
    using ne by (simp add: sample_lib_def sample_yaml_safe_load_def)
  have t: "truthy sample_schema"
    by (simp add: sample_schema_def)
  have b: "config_box sample_lib sample_schema = Inr sample_schema"
    by (simp add: sample_lib_def sample_config_box_def sample_schema_def)
  show ?thesis
    by (simp add: read_yaml_def o y t b Let_def)
qed

lemma sample_required:
  "box_getattr sample_lib sample_schema ''required_columns''
     = Inr (PList [PStr ''customer_id'', PStr ''last_purchase_date''])"
  by (simp add: sample_lib_def sample_box_getattr_def sample_schema_def)

lemma sample_required_set:
  "py_set (PList [PStr ''customer_id'', PStr ''last_purchase_date''])
     = Inr {KStr ''customer_id'', KStr ''last_purchase_date''}"
  by simp

theorem validate_missing_columns_witness:
  "fst (validate_data_schema sample_lib sample_state
          [(KStr ''customer_id'', ''object''), (KStr ''churn'', ''int64'')] [''schemas'', ''churn.yaml''])
     = Inl (Exc ValueError [Lit ''Schema validation failed. Missing: '', FKeys {KStr ''last_purchase_date''}])"
proof -
  have c: "df_columns sample_lib [(KStr ''customer_id'', ''object''), (KStr ''churn'', ''int64'')]
             = [KStr ''customer_id'', KStr ''churn'']"
    by (simp add: sample_lib_def)
  have n: "\<not> {KStr ''customer_id'', KStr ''last_purchase_date''}
             \<subseteq> set (df_columns sample_lib [(KStr ''customer_id'', ''object''), (KStr ''churn'', ''int64'')])"
    by (simp add: c)
  have m: "{k \<in> {KStr ''customer_id'', KStr ''last_purchase_date''}.
             k \<notin> set (df_columns sample_lib [(KStr ''customer_id'', ''object''), (KStr ''churn'', ''int64'')])}
           = {KStr ''last_purchase_date''}"
    by (auto simp: c)
  show ?thesis
    using validate_missing_columns [OF sample_read_schema sample_required sample_required_set n]
    by (simp only: m)
qed

lemma check_dtypes_ok:
  assumes "\<forall>(col, dtype)\<in>set items. col \<in> set (df_columns L df) \<longrightarrow> (\<exists>actual. col_dtype L df col = Inr actual)"
  shows "\<exists>ws. check_dtypes L st df items = (None, st\<lparr>logged := logged st @ ws\<rparr>)
            \<and> (\<forall>w\<in>set ws. fst w = WARNING) \<and> length ws = length (mismatches L df items)"
  using assms
proof (induction items arbitrary: st)
  case Nil
  then show ?case by (simp add: mismatches_def)
next
  case (Cons it items)
  obtain col dtype where it: "it = (col, dtype)" by (cases it)
  have rest: "\<forall>(col, dtype)\<in>set items. col \<in> set (df_columns L df) \<longrightarrow> (\<exists>actual. col_dtype L df col = Inr actual)"
    using Cons.prems by simp
  show ?case
  proof (cases "col \<in> set (df_columns L df)")
    case False
    from Cons.IH [OF rest, of st] False it show ?thesis
      by (simp add: mismatches_def)
  next
    case True
    then obtain actual where a: "col_dtype L df col = Inr actual"
      using Cons.prems it by auto
    show ?thesis
    proof (cases "is_dtype_equal L actual dtype")
      case True': True
      from Cons.IH [OF rest, of st] True a True' it show ?thesis
        by (simp add: mismatches_def)
    next
      case False
      define w where "w = (WARNING, [Lit (''Column '' @ [CHR 0x27]), FKey col,
                                     Lit (CHR 0x27 # '' has dtype ''), Lit actual,
                                     Lit '', expected '', FVal dtype])"
      from Cons.IH [OF rest, of "log_to WARNING (snd w) st"]
      obtain ws where ws: "check_dtypes L (log_to WARNING (snd w) st) df items
             = (None, (log_to WARNING (snd w) st)\<lparr>logged := logged (log_to WARNING (snd w) st) @ ws\<rparr>)"
          "\<forall>w\<in>set ws. fst w = WARNING" "length ws = length (mismatches L df items)"
        by blast
      have "check_dtypes L st df (it # items) = (None, st\<lparr>logged := logged st @ (w # ws)\<rparr>)"
        using ws(1) True a False it by (simp add: w_def log_to_def)
      moreover have "\<forall>x\<in>set (w # ws). fst x = WARNING"
        using ws(2) by (simp add: w_def)
      moreover have "length (w # ws) = length (mismatches L df (it # items))"
        using ws(3) True a False it by (simp add: mismatches_def)
      ultimately show ?thesis by blast
    qed
  qed
qed

text \<open>
  C4, as the code has it: when the frame has all required columns of the schema, the
  schema declares its dtypes as a mapping, and \<^verbatim>\<open>df[col].dtype\<close> is a dtype for every
  declared column of the frame, \<^verbatim>\<open>validate_data_schema\<close> returns \<^verbatim>\<open>True\<close> whether or
  not the dtypes agree: each declared column of the frame whose dtype differs adds one
  warning to the log and nothing else happens.
\<close>

theorem validate_dtype_mismatch_only_warns:
  assumes "read_yaml L st schema_path = (Inr schema, st1)"
    and "box_getattr L schema ''required_columns'' = Inr required_columns"
    and "py_set required_columns = Inr required"
    and "required \<subseteq> set (df_columns L df)"
    and "box_getattr L schema ''dtypes'' = Inr (PDict items)"
    and "\<forall>(col, dtype)\<in>set items. col \<in> set (df_columns L df) \<longrightarrow> (\<exists>actual. col_dtype L df col = Inr actual)"
  shows "\<exists>ws. fst (validate_data_schema L st df schema_path) = Inr True
            \<and> files (snd (validate_data_schema L st df schema_path)) = files st
            \<and> logged (snd (validate_data_schema L st df schema_path))
                = logged st1 @ ws @ [(INFO, [Lit ''Data schema validation passed''])]
            \<and> (\<forall>w\<in>set ws. fst w = WARNING)
            \<and> length ws = length (mismatches L df items)"
proof -
  from check_dtypes_ok [OF assms(6), of st1]
  obtain ws where ws: "check_dtypes L st1 df items = (None, st1\<lparr>logged := logged st1 @ ws\<rparr>)"
      "\<forall>w\<in>set ws. fst w = WARNING" "length ws = length (mismatches L df items)"
    by blast
  have e: "required - set (df_columns L df) = {}"
    using assms(4) by auto
  have f: "files st1 = files st"
    using assms(1) read_yaml_files [of L st schema_path] by simp
  have "fst (validate_data_schema L st df schema_path) = Inr True
      \<and> files (snd (validate_data_schema L st df schema_path)) = files st
      \<and> logged (snd (validate_data_schema L st df schema_path))
                = logged st1 @ ws @ [(INFO, [Lit ''Data schema validation passed''])]"
    using assms(1-3,5) e ws(1) f
    by (simp add: validate_data_schema_def Let_def log_to_def)
  then show ?thesis using ws(2,3) by blast
qed

theorem validate_dtype_mismatch_only_warns_witness:
  "\<exists>ws. fst (validate_data_schema sample_lib sample_state
          [(KStr ''customer_id'', ''int64''), (KStr ''last_purchase_date'', ''object'')] [''schemas'', ''churn.yaml''])
       = Inr True
     \<and> logged (snd (validate_data_schema sample_lib sample_state
          [(KStr ''customer_id'', ''int64''), (KStr ''last_purchase_date'', ''object'')] [''schemas'', ''churn.yaml'']))
       = [(INFO, [Lit ''YAML loaded: '', FPath [''schemas'', ''churn.yaml'']])] @ ws
           @ [(INFO, [Lit ''Data schema validation passed''])]
     \<and> (\<forall>w\<in>set ws. fst w = WARNING) \<and> length ws = 1"
proof -
  let ?df = "[(KStr ''customer_id'', ''int64''), (KStr ''last_purchase_date'', ''object'')]"
  let ?items = "[(KStr ''customer_id'', PStr ''str''), (KStr ''churn'', PStr ''int'')]"
  have c: "df_columns sample_lib ?df = [KStr ''customer_id'', KStr ''last_purchase_date'']"
    by (simp add: sample_lib_def)
  have s: "{KStr ''customer_id'', KStr ''last_purchase_date''} \<subseteq> set (df_columns sample_lib ?df)"
    by (simp add: c)
  have d: "box_getattr sample_lib sample_schema ''dtypes'' = Inr (PDict ?items)"
    by (simp add: sample_lib_def sample_box_getattr_def sample_schema_def)
  have cd: "col_dtype sample_lib ?df (KStr ''customer_id'') = Inr ''int64''"
    by (simp add: sample_lib_def sample_col_dtype_def)
  have a: "\<forall>(col, dtype)\<in>set ?items. col \<in> set (df_columns sample_lib ?df)
             \<longrightarrow> (\<exists>actual. col_dtype sample_lib ?df col = Inr actual)"
    by (simp add: c cd)
  have m: "length (mismatches sample_lib ?df ?items) = 1"
    by (simp add: mismatches_def c cd) (simp add: sample_lib_def)
  have l: "logged (log_to INFO [Lit ''YAML loaded: '', FPath [''schemas'', ''churn.yaml'']] sample_state)
             = [(INFO, [Lit ''YAML loaded: '', FPath [''schemas'', ''churn.yaml'']])]"
    by (simp add: log_to_def sample_state_def)
  show ?thesis
    using validate_dtype_mismatch_only_warns [OF sample_read_schema sample_required sample_required_set s d a]
    by (simp only: m l) blast
qed

text \<open>
  C4 as stated fails for two frames that have every required column: one in which the
  declared column \<^verbatim>\<open>customer_id\<close> occurs twice, so that \<^verbatim>\<open>df[col]\<close> is a frame and has
  no \<^verbatim>\<open>dtype\<close>, and any frame when the schema declares no dtypes.
\<close>

theorem validate_dtype_counterexample:
  "fst (validate_data_schema sample_lib sample_state
          [(KStr ''customer_id'', ''int64''), (KStr ''customer_id'', ''object''),
           (KStr ''last_purchase_date'', ''object'')]
          [''schemas'', ''churn.yaml''])
     = Inl (Exc AttributeError [Lit ''DataFrame object has no attribute dtype''])
   \<and> fst (validate_data_schema sample_lib
          (sample_state\<lparr>files := (files sample_state)
             ([''schemas'', ''columns_only.yaml''] \<mapsto> File sample_columns_only_text)\<rparr>)
          [(KStr ''customer_id'', ''int64'')]
          [''schemas'', ''columns_only.yaml''])
     = Inl (Exc BoxKeyError [Lit ''dtypes''])"
proof -
  let ?df = "[(KStr ''customer_id'', ''int64''), (KStr ''customer_id'', ''object''),
              (KStr ''last_purchase_date'', ''object'')]"
  have c: "df_columns sample_lib ?df = [KStr ''customer_id'', KStr ''customer_id'', KStr ''last_purchase_date'']"
    by (simp add: sample_lib_def)
  have e: "{KStr ''customer_id'', KStr ''last_purchase_date''} - set (df_columns sample_lib ?df) = {}"
    by (simp add: c)
  have d: "box_getattr sample_lib sample_schema ''dtypes''
             = Inr (PDict [(KStr ''customer_id'', PStr ''str''), (KStr ''churn'', PStr ''int'')])"
    by (simp add: sample_lib_def sample_box_getattr_def sample_schema_def)
  have cd: "col_dtype sample_lib ?df (KStr ''customer_id'')
              = Inl (Exc AttributeError [Lit ''DataFrame object has no attribute dtype''])"
    by (simp add: sample_lib_def sample_col_dtype_def)
  have first: "fst (validate_data_schema sample_lib sample_state ?df [''schemas'', ''churn.yaml''])
     = Inl (Exc AttributeError [Lit ''DataFrame object has no attribute dtype''])"
    by (simp add: validate_data_schema_def sample_read_schema sample_required e d Let_def)
       (simp add: c cd)
  let ?st = "sample_state\<lparr>files := (files sample_state)
             ([''schemas'', ''columns_only.yaml''] \<mapsto> File sample_columns_only_text)\<rparr>"
  have o: "open_r ((files sample_state)([''schemas'', ''columns_only.yaml''] \<mapsto> File sample_columns_only_text))
             [''schemas'', ''columns_only.yaml''] = Inr sample_columns_only_text"
    by (simp add: open_r_def isdir_def)
  have ne: "sample_columns_only_text \<noteq> []" "sample_columns_only_text \<noteq> ''false''"
    "sample_columns_only_text \<noteq> ''0''" "sample_columns_only_text \<noteq> [dq, dq]"
    "sample_columns_only_text \<noteq> ''{}''" "sample_columns_only_text \<noteq> ''[]''"
    "sample_columns_only_text \<noteq> ''42''" "sample_columns_only_text \<noteq> sample_schema_text"
    "sample_columns_only_text \<noteq> sample_metadata_text"
    by (simp_all add: sample_columns_only_text_def sample_schema_text_def sample_metadata_text_def)
  have y: "yaml_safe_load sample_lib sample_columns_only_text = Inr sample_columns_only"
    using ne by (simp add: sample_lib_def sample_yaml_safe_load_def)
  have b: "config_box sample_lib sample_columns_only = Inr sample_columns_only"
    by (simp add: sample_lib_def sample_config_box_def sample_columns_only_def)
  have r: "fst (read_yaml sample_lib ?st [''schemas'', ''columns_only.yaml'']) = Inr sample_columns_only"
    by (simp add: read_yaml_def o y b Let_def) (simp add: sample_columns_only_def)
  obtain st1 where r1: "read_yaml sample_lib ?st [''schemas'', ''columns_only.yaml''] = (Inr sample_columns_only, st1)"
    using r by (cases "read_yaml sample_lib ?st [''schemas'', ''columns_only.yaml'']") auto
  have g: "box_getattr sample_lib sample_columns_only ''required_columns'' = Inr (PList [PStr ''customer_id''])"
      "box_getattr sample_lib sample_columns_only ''dtypes'' = Inl (Exc BoxKeyError [Lit ''dtypes''])"
    by (simp_all add: sample_lib_def sample_box_getattr_def sample_columns_only_def)
  have c2: "df_columns sample_lib [(KStr ''customer_id'', ''int64'')] = [KStr ''customer_id'']"
    by (simp add: sample_lib_def)
  have second: "fst (validate_data_schema sample_lib ?st [(KStr ''customer_id'', ''int64'')]
                  [''schemas'', ''columns_only.yaml''])
     = Inl (Exc BoxKeyError [Lit ''dtypes''])"
    by (simp add: validate_data_schema_def r1 g c2 Let_def)
  show ?thesis using first second by (rule conjI)
qed

section \<open>Properties of create_directories\<close>

lemma mkdir_cases:
  assumes "mkdir fs p = (r, fs')"
  shows "(r = None \<and> fs' = fs(p \<mapsto> Dir) \<and> \<not> exists_path fs p \<and> isdir fs (butlast p))
       \<or> (r \<noteq> None \<and> fs' = fs)"
  using assms by (auto simp: mkdir_def split: if_splits)

lemma mkdir_exist_ok_cases:
  assumes "mkdir_exist_ok fs p = (r, fs')"
  shows "(r = None \<and> isdir fs' p \<and>
           (fs' = fs \<or> (fs' = fs(p \<mapsto> Dir) \<and> \<not> exists_path fs p \<and> isdir fs (butlast p))))
       \<or> (r \<noteq> None \<and> fs' = fs \<and> \<not> isdir fs p \<and> (exists_path fs p \<or> \<not> isdir fs (butlast p)))"
proof (cases "mkdir fs p")
  case (Pair r0 fs0)
  from mkdir_cases [OF Pair] show ?thesis
    using assms Pair
    by (auto simp: mkdir_exist_ok_def isdir_def exists_path_def mkdir_def split: if_splits option.splits)
qed

lemma extends_refl: "extends fs fs"
  by (simp add: extends_def)

lemma extends_trans: "extends a b \<Longrightarrow> extends b c \<Longrightarrow> extends a c"
  unfolding extends_def by (metis option.distinct(1))

lemma extends_isdir: "extends fs fs' \<Longrightarrow> isdir fs q \<Longrightarrow> isdir fs' q"
  unfolding extends_def isdir_def by (metis option.distinct(1))

lemma extends_exists: "extends fs fs' \<Longrightarrow> exists_path fs q \<Longrightarrow> exists_path fs' q"
  unfolding extends_def exists_path_def by (metis option.distinct(1))

lemma wf_fs_mkdir:
  assumes "wf_fs fs" "isdir fs (butlast p)" "fs p = None" "p \<noteq> []"
  shows "wf_fs (fs(p \<mapsto> Dir)) \<and> extends fs (fs(p \<mapsto> Dir))"
proof
  show "wf_fs (fs(p \<mapsto> Dir))"
    unfolding wf_fs_def
  proof (intro allI impI)
    fix q assume q: "(fs(p \<mapsto> Dir)) q \<noteq> None"
    have "isdir fs (butlast q)"
    proof (cases "q = p")
      case True
      then show ?thesis using assms(2) by simp
    next
      case False
      then have "fs q \<noteq> None" using q by simp
      then show ?thesis using assms(1) unfolding wf_fs_def by blast
    qed
    then show "isdir (fs(p \<mapsto> Dir)) (butlast q)"
      unfolding isdir_def by auto
  qed
  show "extends fs (fs(p \<mapsto> Dir))"
    unfolding extends_def using assms(3,4) by auto
qed

lemma mkdir_exist_ok_wf:
  assumes "wf_fs fs" "mkdir_exist_ok fs p = (r, fs')"
  shows "wf_fs fs' \<and> extends fs fs'"
proof -
  from mkdir_exist_ok_cases [OF assms(2)]
  consider "fs' = fs" | "fs' = fs(p \<mapsto> Dir)" "\<not> exists_path fs p" "isdir fs (butlast p)"
    by blast
  then show ?thesis
  proof cases
    case 1
    then show ?thesis using assms(1) by (simp add: extends_refl)
  next
    case 2
    then have "fs p = None" "p \<noteq> []" by (auto simp: exists_path_def)
    from wf_fs_mkdir [OF assms(1) 2(3) this] 2(1) show ?thesis by simp
  qed
qed

lemma makedirs_leaf:
  "\<not> (butlast p \<noteq> [] \<and> \<not> exists_path fs (butlast p)) \<Longrightarrow> makedirs fs p = mkdir_exist_ok fs p"
  by (subst makedirs.simps) auto

lemma makedirs_rec:
  "butlast p \<noteq> [] \<and> \<not> exists_path fs (butlast p) \<Longrightarrow>
   makedirs fs p =
     (case makedirs fs (butlast p) of
        (None, fs1) \<Rightarrow> mkdir_exist_ok fs1 p
      | (Some e, fs1) \<Rightarrow> if cls e = FileExistsError then mkdir_exist_ok fs1 p else (Some e, fs1))"
  by (subst makedirs.simps) auto

lemma makedirs_inv:
  "wf_fs fs \<Longrightarrow> makedirs fs p = (r, fs') \<Longrightarrow>
     wf_fs fs' \<and> extends fs fs' \<and> (r = None \<longrightarrow> isdir fs' p) \<and> (r \<noteq> None \<longrightarrow> fs' = fs)"
proof (induction fs p arbitrary: r fs' rule: makedirs.induct)
  case (1 fs p)
  show ?case
  proof (cases "butlast p \<noteq> [] \<and> \<not> exists_path fs (butlast p)")
    case False
    then have m: "mkdir_exist_ok fs p = (r, fs')"
      using "1.prems"(2) makedirs_leaf [of p fs] by simp
    from mkdir_exist_ok_cases [OF m] mkdir_exist_ok_wf [OF "1.prems"(1) m]
    show ?thesis by auto
  next
    case True
    obtain r1 fs1 where rec: "makedirs fs (butlast p) = (r1, fs1)"
      by (cases "makedirs fs (butlast p)")
    from "1.IH" [OF True "1.prems"(1) rec]
    have ih: "wf_fs fs1" "extends fs fs1" "r1 = None \<longrightarrow> isdir fs1 (butlast p)" "r1 \<noteq> None \<longrightarrow> fs1 = fs"
      by auto
    have pnone: "fs p = None"
      using "1.prems"(1) True unfolding wf_fs_def isdir_def exists_path_def by auto
    show ?thesis
    proof (cases r1)
      case None
      then have m: "mkdir_exist_ok fs1 p = (r, fs')"
        using "1.prems"(2) rec makedirs_rec [OF True] by simp
      have d: "isdir fs1 (butlast p)" using ih(3) None by simp
      have p1: "fs1 p = None \<or> fs1 p = Some Dir"
        using ih(2) pnone unfolding extends_def by metis
      from mkdir_exist_ok_cases [OF m] mkdir_exist_ok_wf [OF ih(1) m] d p1 ih(2)
      show ?thesis
        by (auto simp: isdir_def exists_path_def intro: extends_trans)
    next
      case (Some e)
      then have eq: "fs1 = fs" using ih(4) by simp
      show ?thesis
      proof (cases "cls e = FileExistsError")
        case True': True
        then have m: "mkdir_exist_ok fs p = (r, fs')"
          using "1.prems"(2) rec Some eq makedirs_rec [OF True] by simp
        from mkdir_exist_ok_cases [OF m] mkdir_exist_ok_wf [OF "1.prems"(1) m]
        show ?thesis by auto
      next
        case False
        then have "r = Some e" "fs' = fs"
          using "1.prems"(2) rec Some eq makedirs_rec [OF True] by simp_all
        then show ?thesis using "1.prems"(1) by (simp add: extends_refl)
      qed
    qed
  qed
qed

lemma makedirs_isdir:
  assumes "wf_fs fs" "isdir fs p"
  shows "makedirs fs p = (None, fs)"
proof -
  have par: "\<not> (butlast p \<noteq> [] \<and> \<not> exists_path fs (butlast p))"
    using assms unfolding wf_fs_def isdir_def exists_path_def by auto
  have "mkdir_exist_ok fs p = (None, fs)"
    using assms(2) by (auto simp: mkdir_exist_ok_def mkdir_def isdir_def exists_path_def)
  then show ?thesis using makedirs_leaf [OF par] by simp
qed

lemma create_directories_body_inv:
  "wf_fs (files st) \<Longrightarrow> create_directories_body st ps v = (r, st') \<Longrightarrow>
     wf_fs (files st') \<and> extends (files st) (files st') \<and> (r = None \<longrightarrow> (\<forall>p\<in>set ps. isdir (files st') p))"
proof (induction ps arbitrary: st r st')
  case Nil
  then show ?case by (simp add: extends_refl)
next
  case (Cons p ps)
  obtain r1 fs1 where m: "makedirs (files st) p = (r1, fs1)"
    by (cases "makedirs (files st) p")
  note inv = makedirs_inv [OF Cons.prems(1) m]
  show ?case
  proof (cases r1)
    case (Some e)
    then show ?thesis using Cons.prems m inv by (auto simp: extends_refl)
  next
    case None
    define st1 where "st1 = (if v then log_to INFO [Lit ''Created directory: '', FPath p] (st\<lparr>files := fs1\<rparr>)
             else st\<lparr>files := fs1\<rparr>)"
    have f1: "files st1 = fs1" by (simp add: st1_def log_to_def)
    have c: "create_directories_body st1 ps v = (r, st')"
      using Cons.prems(2) m None by (simp add: st1_def)
    have "wf_fs (files st1)" using inv f1 by simp
    from Cons.IH [OF this c] inv None f1
    show ?thesis by (auto intro: extends_trans extends_isdir)
  qed
qed

lemma create_directories_body_existing:
  "wf_fs (files st) \<Longrightarrow> \<forall>p\<in>set ps. isdir (files st) p \<Longrightarrow>
     fst (create_directories_body st ps v) = None \<and> files (snd (create_directories_body st ps v)) = files st"
proof (induction ps arbitrary: st)
  case Nil
  then show ?case by simp
next
  case (Cons p ps)
  have m: "makedirs (files st) p = (None, files st)"
    using makedirs_isdir Cons.prems by simp
  define st1 where "st1 = (if v then log_to INFO [Lit ''Created directory: '', FPath p] (st\<lparr>files := files st\<rparr>)
             else st\<lparr>files := files st\<rparr>)"
  have f1: "files st1 = files st" by (simp add: st1_def log_to_def)
  have c: "create_directories_body st (p # ps) v = create_directories_body st1 ps v"
    using m by (simp add: st1_def)
  from Cons.IH [of st1] Cons.prems f1 show ?case unfolding c by simp
qed

lemma create_directories_body_again:
  "wf_fs (files st) \<Longrightarrow> create_directories_body st ps v = (r, st1) \<Longrightarrow> files st2 = files st1 \<Longrightarrow>
     fst (create_directories_body st2 ps v') = r \<and> files (snd (create_directories_body st2 ps v')) = files st1"
proof (induction ps arbitrary: st r st1 st2)
  case Nil
  then show ?case by simp
next
  case (Cons p ps)
  obtain r1 fs1 where m: "makedirs (files st) p = (r1, fs1)"
    by (cases "makedirs (files st) p")
  note inv = makedirs_inv [OF Cons.prems(1) m]
  show ?case
  proof (cases r1)
    case (Some e)
    then have "fs1 = files st" "r = Some e" "files st1 = files st"
      using inv Cons.prems(2) m by auto
    then show ?thesis using Cons.prems(3) m Some by simp
  next
    case None
    define sa where "sa = (if v then log_to INFO [Lit ''Created directory: '', FPath p] (st\<lparr>files := fs1\<rparr>)
             else st\<lparr>files := fs1\<rparr>)"
    have fa: "files sa = fs1" by (simp add: sa_def log_to_def)
    have c: "create_directories_body sa ps v = (r, st1)"
      using Cons.prems(2) m None by (simp add: sa_def)
    have wa: "wf_fs (files sa)" using inv fa by simp
    note rest = create_directories_body_inv [OF wa c]
    have "isdir (files st1) p"
      using inv None rest fa by (auto intro: extends_isdir)
    then have m2: "makedirs (files st2) p = (None, files st2)"
      using makedirs_isdir rest Cons.prems(3) by simp
    define sb where "sb = (if v' then log_to INFO [Lit ''Created directory: '', FPath p] (st2\<lparr>files := files st2\<rparr>)
             else st2\<lparr>files := files st2\<rparr>)"
    have fb: "files sb = files st1" using Cons.prems(3) by (simp add: sb_def log_to_def)
    have c2: "create_directories_body st2 (p # ps) v' = create_directories_body sb ps v'"
      using m2 by (simp add: sb_def)
    from Cons.IH [OF wa c fb] show ?thesis unfolding c2 .
  qed
qed


text \<open>
  What the loop under the decorator does on a file system: a second run with the same
  paths ends as the first one did and leaves the files as the first run left them, and
  when every path is a directory already, the run succeeds and changes no file.
\<close>

lemma create_directories_body_idempotent:
  assumes "wf_fs (files st)" and "create_directories_body st ps verbose = (r, st1)"
  shows "fst (create_directories_body st1 ps verbose) = r
       \<and> files (snd (create_directories_body st1 ps verbose)) = files st1
       \<and> ((\<forall>p\<in>set ps. isdir (files st) p) \<longrightarrow> r = None \<and> files st1 = files st)"
proof -
  have again: "fst (create_directories_body st1 ps verbose) = r
       \<and> files (snd (create_directories_body st1 ps verbose)) = files st1"
    using create_directories_body_again [OF assms refl] .
  have ex: "r = None \<and> files st1 = files st" if "\<forall>p\<in>set ps. isdir (files st) p"
    using create_directories_body_existing [OF assms(1) that, of verbose] assms(2) by simp
  show ?thesis
  proof (intro conjI impI)
    show "fst (create_directories_body st1 ps verbose) = r"
      using again by (rule conjunct1)
    show "files (snd (create_directories_body st1 ps verbose)) = files st1"
      using again by (rule conjunct2)
    show "r = None" if "\<forall>p\<in>set ps. isdir (files st) p"
      using ex [OF that] by (rule conjunct1)
    show "files st1 = files st" if "\<forall>p\<in>set ps. isdir (files st) p"
      using ex [OF that] by (rule conjunct2)
  qed
qed

lemma wf_sample_state: "wf_fs (files sample_state)"
  by (auto simp: wf_fs_def sample_state_def isdir_def split: if_splits)

text \<open>
  C5 fails on the code. The call of the module's own example,
  \<^verbatim>\<open>create_directories([Path("test_dir")])\<close>, raises \<^verbatim>\<open>TypeError\<close> in the decorator, which
  tests the list against \<^verbatim>\<open>List[Path]\<close>; no directory is created and nothing is logged,
  where the loop itself would have created \<^verbatim>\<open>test_dir\<close> and returned.
\<close>

theorem create_directories_type_error:
  "create_directories sample_state [[''test_dir'']] True
     = (Some (Exc TypeError [Lit ''Subscripted generics cannot be used with class and instance checks'']),
        sample_state)
   \<and> files sample_state [''test_dir''] = None
   \<and> fst (create_directories_body sample_state [[''test_dir'']] True) = None
   \<and> files (snd (create_directories_body sample_state [[''test_dir'']] True)) [''test_dir''] = Some Dir"
proof -
  have m: "makedirs (files sample_state) [''test_dir'']
             = (None, (files sample_state)([''test_dir''] \<mapsto> Dir))"
    by (simp add: makedirs_leaf mkdir_exist_ok_def mkdir_def exists_path_def isdir_def sample_state_def)
  have n: "files sample_state [''test_dir''] = None"
    by (simp add: sample_state_def)
  show ?thesis
    by (simp add: create_directories_def m n log_to_def)
qed

section \<open>Saving and loading\<close>

lemma write_with_cases:
  assumes "write_with fs p produce = (r, fs')"
  shows "(r \<noteq> None \<and> fs' = fs)
       \<or> (p \<noteq> [] \<and> r = snd (produce (old_content fs p))
           \<and> fs' = fs(p \<mapsto> File (fst (produce (old_content fs p)))))"
  using assms
  by (auto simp: write_with_def isdir_def Let_def split: if_splits prod.splits)

lemma write_and_log_success:
  assumes "write_and_log L st p produce message = (None, st')"
  shows "p \<noteq> [] \<and> snd (produce (old_content (files st) p)) = None
       \<and> files st' = (files st)(p \<mapsto> File (fst (produce (old_content (files st) p))))"
proof (cases "write_with (files st) p produce")
  case (Pair r0 fs0)
  then have r0: "r0 = None" and f: "files st' = fs0"
    using assms by (auto simp: write_and_log_def log_to_def split: option.splits sum.splits)
  from write_with_cases [OF Pair] r0 f show ?thesis by auto
qed

lemma open_r_file: "p \<noteq> [] \<Longrightarrow> fs p = Some (File c) \<Longrightarrow> open_r fs p = Inr c"
  by (simp add: open_r_def isdir_def)

text \<open>
  C2, as the code has it: after \<^verbatim>\<open>save_json\<close> or \<^verbatim>\<open>save_csv\<close> has returned, the matching
  load returns what the library's decoder makes of the text the library's encoder wrote
  (with the keyword arguments of each call), so it returns the value saved exactly when
  the library decodes its own output to that value. There is no helper that writes YAML;
  \<^verbatim>\<open>read_yaml\<close> on a file written by \<^verbatim>\<open>save_json\<close> does the same for truthy content only
  and raises \<^verbatim>\<open>BoxValueError\<close> for a falsy one. Nothing is said of the binary helpers.
\<close>

theorem save_then_load:
  "(save_json L st p d indent = (None, st_json) \<longrightarrow>
      fst (load_json L st_json p)
        = (case json_load L (fst (json_dump L d indent)) of
             Inl e \<Rightarrow> Inl e
           | Inr content \<Rightarrow> config_box L content)
      \<and> fst (read_yaml L st_json p)
        = (case yaml_safe_load L (fst (json_dump L d indent)) of
             Inl e \<Rightarrow> Inl e
           | Inr content \<Rightarrow>
               if truthy content then config_box L content
               else Inl (Exc BoxValueError [Lit ''YAML file is empty''])))
   \<and> (save_csv L st df p kw = (None, st_csv) \<longrightarrow>
        fst (load_csv L st_csv p kw') = read_csv L (fst (to_csv L df kw (old_content (files st) p))) kw')"
proof (intro conjI impI)
  assume a: "save_json L st p d indent = (None, st_json)"
  from write_and_log_success [OF a [unfolded save_json_def]]
  have o: "open_r (files st_json) p = Inr (fst (json_dump L d indent))"
    by (simp add: open_r_file)
  show "fst (load_json L st_json p)
        = (case json_load L (fst (json_dump L d indent)) of
             Inl e \<Rightarrow> Inl e
           | Inr content \<Rightarrow> config_box L content)"
    by (simp add: load_json_def o Let_def split: sum.splits)
  show "fst (read_yaml L st_json p)
        = (case yaml_safe_load L (fst (json_dump L d indent)) of
             Inl e \<Rightarrow> Inl e
           | Inr content \<Rightarrow>
               if truthy content then config_box L content
               else Inl (Exc BoxValueError [Lit ''YAML file is empty'']))"
    by (simp add: read_yaml_def read_yaml_except_def o Let_def split: sum.splits)
next
  assume a: "save_csv L st df p kw = (None, st_csv)"
  from write_and_log_success [OF a [unfolded save_csv_def]]
  have o: "open_r (files st_csv) p = Inr (fst (to_csv L df kw (old_content (files st) p)))"
    by (simp add: open_r_file)
  show "fst (load_csv L st_csv p kw') = read_csv L (fst (to_csv L df kw (old_content (files st) p))) kw'"
    by (simp add: load_csv_def o split: sum.splits)
qed

lemma get_size_after_write:
  "p \<noteq> [] \<Longrightarrow> get_size d (fs(p \<mapsto> File c)) p = Inr (size_text (length c))"
  by (simp add: get_size_def getsize_def)

lemma sample_save_json:
  assumes "json_dump sample_lib d 4 = (t, None)"
  shows "fst (save_json sample_lib sample_state [''data.json''] d 4) = None
       \<and> files (snd (save_json sample_lib sample_state [''data.json''] d 4))
           = (files sample_state)([''data.json''] \<mapsto> File t)"
proof -
  have w: "write_with (files sample_state) [''data.json''] (\<lambda>old. json_dump sample_lib d 4)
             = (None, (files sample_state)([''data.json''] \<mapsto> File t))"
    using assms by (simp add: write_with_def isdir_def exists_path_def sample_state_def)
  show ?thesis
    by (simp add: save_json_def write_and_log_def w get_size_after_write files_log_to)
qed

lemma sample_save_csv:
  assumes "to_csv sample_lib df kw None = (t, None)"
  shows "fst (save_csv sample_lib sample_state df [''churn.csv''] kw) = None
       \<and> files (snd (save_csv sample_lib sample_state df [''churn.csv''] kw))
           = (files sample_state)([''churn.csv''] \<mapsto> File t)"
proof -
  have o: "old_content (files sample_state) [''churn.csv''] = None"
    by (simp add: old_content_def sample_state_def)
  have w: "write_with (files sample_state) [''churn.csv''] (to_csv sample_lib df kw)
             = (None, (files sample_state)([''churn.csv''] \<mapsto> File t))"
    using assms by (simp add: write_with_def isdir_def exists_path_def o) (simp add: sample_state_def)
  show ?thesis
    by (simp add: save_csv_def write_and_log_def w get_size_after_write files_log_to)
qed

lemma sample_json_empty: "json_dump sample_lib [] 4 = (''{}'', None)"
  by (simp add: sample_lib_def sample_json_dump_def)

lemma sample_json_int_key: "json_dump sample_lib sample_int_key 4 = (sample_int_key_text, None)"
  by (simp add: sample_lib_def sample_json_dump_def sample_int_key_def sample_metadata_def)

lemma sample_csv_no_index:
  "to_csv sample_lib [(KStr ''churn'', ''object'')] [(''index'', PBool False)] None
     = (''churn'' @ [nl], None)
   \<and> read_csv sample_lib (''churn'' @ [nl]) [] = Inr [(KStr ''churn'', ''object'')]"
  by (simp add: sample_lib_def sample_to_csv_def column_name_def sample_read_csv_def nl_def
      enumerate_eq_zip)

lemma sample_csv_default:
  "to_csv sample_lib [(KStr ''churn'', ''object'')] [] None = ('',churn'' @ [nl], None)
   \<and> read_csv sample_lib ('',churn'' @ [nl]) []
       = Inr [(KStr ''Unnamed: 0'', ''object''), (KStr ''churn'', ''object'')]"
  by (simp add: sample_lib_def sample_to_csv_def column_name_def sample_read_csv_def nl_def
      enumerate_eq_zip str_nat.simps digit_char_def)

theorem save_then_load_witness:
  "fst (load_json sample_lib (snd (save_json sample_lib sample_state [''data.json''] [] 4)) [''data.json''])
     = Inr (PDict [])
   \<and> fst (load_csv sample_lib
          (snd (save_csv sample_lib sample_state [(KStr ''churn'', ''object'')] [''churn.csv'']
                  [(''index'', PBool False)]))
          [''churn.csv''] [])
     = Inr [(KStr ''churn'', ''object'')]"
proof -
  let ?df = "[(KStr ''churn'', ''object'')]"
  let ?kw = "[(''index'', PBool False)]"
  define sj where "sj = snd (save_json sample_lib sample_state [''data.json''] [] 4)"
  define sc where "sc = snd (save_csv sample_lib sample_state ?df [''churn.csv''] ?kw)"
  define t where "t = ''churn'' @ [nl]"
  have tc: "to_csv sample_lib ?df ?kw None = (t, None)"
    and rc: "read_csv sample_lib t [] = Inr ?df"
    using sample_csv_no_index by (simp_all add: t_def)
  have j: "save_json sample_lib sample_state [''data.json''] [] 4 = (None, sj)"
    using sample_save_json [OF sample_json_empty] by (simp add: sj_def prod_eq_iff)
  have c: "save_csv sample_lib sample_state ?df [''churn.csv''] ?kw = (None, sc)"
    using sample_save_csv [OF tc] by (simp add: sc_def prod_eq_iff)
  have jl: "json_load sample_lib ''{}'' = Inr (PDict [])"
    by (simp add: sample_lib_def sample_json_load_def)
  have b: "config_box sample_lib (PDict []) = Inr (PDict [])"
    by (simp add: sample_lib_def sample_config_box_def)
  have o: "old_content (files sample_state) [''churn.csv''] = None"
    by (simp add: old_content_def sample_state_def)
  have "fst (load_json sample_lib sj [''data.json'']) = Inr (PDict [])"
    using save_then_load [where L = sample_lib and st = sample_state and p = "[''data.json'']"
        and d = "[]" and indent = 4 and st_json = sj] j
    by (simp add: sample_json_empty jl b)
  moreover have "fst (load_csv sample_lib sc [''churn.csv''] []) = Inr ?df"
    using save_then_load [where L = sample_lib and st = sample_state and p = "[''churn.csv'']"
        and df = ?df and kw = ?kw and st_csv = sc and kw' = "[]"] c
    by (simp add: o tc rc)
  ultimately show ?thesis
    unfolding sj_def sc_def by (rule conjI)
qed

text \<open>
  C2 as stated fails on each pair. The dictionary \<^verbatim>\<open>{1: "a"}\<close> comes back from JSON with
  the key \<^verbatim>\<open>"1"\<close>; a frame saved with the default arguments comes back with the index
  as a first column; the empty dictionary, saved by \<^verbatim>\<open>save_json\<close> as \<^verbatim>\<open>{}\<close>, is refused
  by \<^verbatim>\<open>read_yaml\<close> as an empty file; and \<^verbatim>\<open>save_bin\<close> raises \<^verbatim>\<open>TypeError\<close> in the
  decorator before anything is written.
\<close>

theorem round_trip_counterexample:
  "fst (load_json sample_lib (snd (save_json sample_lib sample_state [''data.json''] [(KNum 1, PStr ''a'')] 4))
          [''data.json''])
     = Inr (PDict [(KStr ''1'', PStr ''a'')])
   \<and> fst (load_csv sample_lib
          (snd (save_csv sample_lib sample_state [(KStr ''churn'', ''object'')] [''churn.csv''] []))
          [''churn.csv''] [])
     = Inr [(KStr ''Unnamed: 0'', ''object''), (KStr ''churn'', ''object'')]
   \<and> fst (save_json sample_lib sample_state [''data.json''] [] 4) = None
   \<and> fst (read_yaml sample_lib (snd (save_json sample_lib sample_state [''data.json''] [] 4)) [''data.json''])
       = Inl (Exc BoxValueError [Lit ''YAML file is empty''])
   \<and> save_bin sample_lib sample_state ''weights'' [''model.joblib'']
       = (Some (Exc TypeError [Lit ''typing.Any cannot be used with isinstance()'']), sample_state)"
proof -
  have k: "[(KNum 1, PStr ''a'')] = sample_int_key"
    by (simp add: sample_int_key_def)
  have o1: "open_r ((files sample_state)([''data.json''] \<mapsto> File sample_int_key_text)) [''data.json'']
              = Inr sample_int_key_text"
    by (simp add: open_r_file)
  have ne: "sample_int_key_text \<noteq> ''{}''" "sample_int_key_text \<noteq> sample_metadata_text"
    by (simp_all add: sample_int_key_text_def sample_metadata_text_def)
  have jl: "json_load sample_lib sample_int_key_text = Inr (PDict [(KStr ''1'', PStr ''a'')])"
    using ne by (simp add: sample_lib_def sample_json_load_def)
  have b: "config_box sample_lib (PDict [(KStr ''1'', PStr ''a'')]) = Inr (PDict [(KStr ''1'', PStr ''a'')])"
    by (simp add: sample_lib_def sample_config_box_def)
  have json: "fst (load_json sample_lib (snd (save_json sample_lib sample_state [''data.json''] [(KNum 1, PStr ''a'')] 4))
          [''data.json''])
     = Inr (PDict [(KStr ''1'', PStr ''a'')])"
    unfolding k
    by (simp add: load_json_def sample_save_json [OF sample_json_int_key] o1 jl b Let_def)
  define t where "t = '',churn'' @ [nl]"
  have tc: "to_csv sample_lib [(KStr ''churn'', ''object'')] [] None = (t, None)"
    and rc: "read_csv sample_lib t [] = Inr [(KStr ''Unnamed: 0'', ''object''), (KStr ''churn'', ''object'')]"
    using sample_csv_default by (simp_all add: t_def)
  have o2: "open_r ((files sample_state)([''churn.csv''] \<mapsto> File t)) [''churn.csv''] = Inr t"
    by (rule open_r_file) simp_all
  have csv: "fst (load_csv sample_lib
          (snd (save_csv sample_lib sample_state [(KStr ''churn'', ''object'')] [''churn.csv''] []))
          [''churn.csv''] [])
     = Inr [(KStr ''Unnamed: 0'', ''object''), (KStr ''churn'', ''object'')]"
    by (simp add: load_csv_def sample_save_csv [OF tc] o2 rc)
  have o3: "open_r ((files sample_state)([''data.json''] \<mapsto> File ''{}'')) [''data.json''] = Inr ''{}''"
    by (simp add: open_r_file)
  have y: "yaml_safe_load sample_lib ''{}'' = Inr (PDict [])"
    by (simp add: sample_lib_def sample_yaml_safe_load_def dq_def)
  have yaml: "fst (save_json sample_lib sample_state [''data.json''] [] 4) = None
   \<and> fst (read_yaml sample_lib (snd (save_json sample_lib sample_state [''data.json''] [] 4)) [''data.json''])
       = Inl (Exc BoxValueError [Lit ''YAML file is empty''])"
    by (simp add: sample_save_json [OF sample_json_empty] read_yaml_def read_yaml_except_def o3 y)
  have bin: "save_bin sample_lib sample_state ''weights'' [''model.joblib'']
       = (Some (Exc TypeError [Lit ''typing.Any cannot be used with isinstance()'']), sample_state)"
    by (simp add: save_bin_def)
  show ?thesis using json csv yaml bin by (intro conjI) simp_all
qed

section \<open>Properties of save_model\<close>

text \<open>
  C7 fails on the code. \<^verbatim>\<open>save_model\<close> is decorated with \<^verbatim>\<open>model: Any\<close>, and the
  decorator's test of the model raises \<^verbatim>\<open>TypeError\<close> before the body runs: with the
  metadata of the docstring neither the blob nor the sidecar is written.
\<close>

theorem save_model_type_error:
  "save_model sample_lib sample_state ''weights'' [''model.joblib''] (Some sample_metadata)
     = (Some (Exc TypeError [Lit ''typing.Any cannot be used with isinstance()'']), sample_state)
   \<and> files sample_state [''model.joblib''] = None
   \<and> files sample_state (metadata_path [''model.joblib'']) = None"
  by (simp add: save_model_def metadata_path_def sample_state_def)

text \<open>
  C10 fails on the code for the same reason: with the empty dictionary and with
  \<^verbatim>\<open>None\<close> the call raises \<^verbatim>\<open>TypeError\<close> in the decorator, and the blob is not written.
\<close>

theorem save_model_no_metadata_type_error:
  "save_model sample_lib sample_state ''weights'' [''model.joblib''] (Some [])
     = (Some (Exc TypeError [Lit ''typing.Any cannot be used with isinstance()'']), sample_state)
   \<and> save_model sample_lib sample_state ''weights'' [''model.joblib''] None
     = (Some (Exc TypeError [Lit ''typing.Any cannot be used with isinstance()'']), sample_state)
   \<and> files sample_state [''model.joblib''] = None"
  by (simp add: save_model_def sample_state_def)

section \<open>Properties of setup_logger\<close>

lemma digit_char_digit: "digit_char d \<in> set ''0123456789''"
proof -
  have "d mod 10 < length ''0123456789''" by simp
  then show ?thesis unfolding digit_char_def by (rule nth_mem)
qed

lemma str_nat_digits: "set (str_nat n) \<subseteq> set ''0123456789''"
proof (induction n rule: str_nat.induct)
  case (1 n)
  show ?case
  proof (cases "n < 10")
    case True
    then show ?thesis using digit_char_digit [of n] by (subst str_nat.simps) simp
  next
    case False
    then show ?thesis using "1.IH" digit_char_digit [of n] by (subst str_nat.simps) simp
  qed
qed

lemma str_nat_nonempty: "str_nat n \<noteq> []"
  by (subst str_nat.simps) simp

lemma zfill_digits: "set s \<subseteq> set ''0123456789'' \<Longrightarrow> set (zfill w s) \<subseteq> set ''0123456789''"
  by (auto simp: zfill_def)

lemma strftime_no_slash: "CHR ''/'' \<notin> set (strftime_ymd d @ ''.log'')"
proof -
  have "CHR ''/'' \<notin> set (zfill w (str_nat n))" for w n
    using zfill_digits [OF str_nat_digits, of w n] by auto
  then show ?thesis by (simp add: strftime_ymd_def)
qed

lemma split_on_none: "c \<notin> set s \<Longrightarrow> split_on c s = [s]"
  by (induction s) auto

lemma split_on_nonempty: "split_on c s \<noteq> []"
  by (induction s) (auto split: list.splits)

lemma split_on_append: "split_on c (a @ c # b) = split_on c a @ split_on c b"
  by (induction a) (auto split: list.splits simp: split_on_nonempty)

lemma split_on_plain_append:
  "c \<notin> set b \<Longrightarrow> split_on c (a @ b) = butlast (split_on c a) @ [last (split_on c a) @ b]"
  by (induction a) (auto split: list.splits simp: split_on_none split_on_nonempty)

lemma path_of_str_component:
  "CHR ''/'' \<notin> set b \<Longrightarrow> b \<noteq> [] \<Longrightarrow> b \<noteq> ''.'' \<Longrightarrow> path_of_str b = [b]"
  by (simp add: path_of_str_def split_on_none)

lemma path_of_str_join:
  assumes "CHR ''/'' \<notin> set b" "b \<noteq> []" "b \<noteq> ''.''"
  shows "path_of_str (path_join a b) = path_of_str a @ [b]"
proof -
  have hd: "hd b \<noteq> CHR ''/''"
    using assms(1,2) by (cases b) auto
  show ?thesis
  proof (cases "a = []")
    case True
    then show ?thesis
      using assms hd by (simp add: path_join_def path_of_str_component) (simp add: path_of_str_def)
  next
    case False
    show ?thesis
    proof (cases "last a = CHR ''/''")
      case True
      then obtain a' where a: "a = a' @ [CHR ''/'']"
        using False by (metis append_butlast_last_id)
      have 1: "path_of_str (a' @ CHR ''/'' # b) = path_of_str a' @ [b]"
        using assms by (simp add: path_of_str_def split_on_append split_on_none)
      have 2: "path_of_str (a' @ [CHR ''/'']) = path_of_str a'"
        by (simp add: path_of_str_def split_on_append)
      show ?thesis
        using hd assms(2) 1 2 by (simp add: path_join_def a)
    next
      case lst: False
      have "path_of_str (a @ CHR ''/'' # b) = path_of_str a @ [b]"
        using assms by (simp add: path_of_str_def split_on_append split_on_none)
      then show ?thesis
        using hd assms(2) False lst by (simp add: path_join_def)
    qed
  qed
qed

lemma strftime_component:
  "strftime_ymd d @ ''.log'' \<noteq> [] \<and> strftime_ymd d @ ''.log'' \<noteq> ''.''"
  by (simp add: strftime_ymd_def)

lemma mkdir_exist_ok_isdir: "mkdir_exist_ok fs p = (None, fs') \<Longrightarrow> isdir fs' p"
  by (auto simp: mkdir_exist_ok_def mkdir_def isdir_def split: if_splits)

lemma makedirs_success_isdir:
  assumes "makedirs fs p = (None, fs')"
  shows "isdir fs' p"
proof (cases "butlast p \<noteq> [] \<and> \<not> exists_path fs (butlast p)")
  case False
  then have "mkdir_exist_ok fs p = (None, fs')"
    using assms by (subst (asm) makedirs.simps) auto
  then show ?thesis by (rule mkdir_exist_ok_isdir)
next
  case True
  then have "\<exists>fs1. mkdir_exist_ok fs1 p = (None, fs')"
    using assms
    by (subst (asm) makedirs.simps) (auto split: prod.splits option.splits if_splits)
  then show ?thesis using mkdir_exist_ok_isdir by blast
qed

text \<open>
  C8: when \<^verbatim>\<open>setup_logger\<close> returns, the logger's first handler is a rotating file
  handler whose file is named after the current date, with \<^verbatim>\<open>.log\<close>, and lies in the
  log directory, which exists; its \<^verbatim>\<open>maxBytes\<close> is \<open>max_log_size * 1024 * 1024\<close> and its
  \<^verbatim>\<open>backupCount\<close> is \<open>backup_count\<close>. The only other handler is the console's.
\<close>

theorem setup_logger_file_handler:
  assumes "setup_logger fs now old_handlers inherited name log_level log_dir console_output
             max_log_size backup_count = (Inr lg, fs')"
  shows "handlers lg
           = RotatingFileHandler (path_join log_dir (strftime_ymd now @ ''.log''))
               (max_log_size * 1024 * 1024) backup_count ''utf-8'' log_format
             # (if console_output then [StreamHandler ''sys.stdout'' log_format] else [])
       \<and> path_of_str (path_join log_dir (strftime_ymd now @ ''.log''))
           = path_of_str log_dir @ [strftime_ymd now @ ''.log'']
       \<and> isdir fs' (path_of_str log_dir)
       \<and> (\<exists>c. fs' (path_of_str log_dir @ [strftime_ymd now @ ''.log'']) = Some (File c))"
proof -
  let ?file = "strftime_ymd now @ ''.log''"
  have pj: "path_of_str (path_join log_dir ?file) = path_of_str log_dir @ [?file]"
    using path_of_str_join [OF strftime_no_slash] strftime_component by blast
  from assms obtain fs1 where m: "makedirs fs (path_of_str log_dir) = (None, fs1)"
    by (auto simp: setup_logger_def split: if_splits prod.splits option.splits)
  from assms m obtain w: "write_with fs1 (path_of_str (path_join log_dir ?file)) open_append = (None, fs')"
    and h: "handlers lg
           = (if old_handlers \<noteq> [] \<or> inherited then [] else old_handlers)
             @ [RotatingFileHandler (path_join log_dir ?file)
               (max_log_size * 1024 * 1024) backup_count ''utf-8'' log_format]
             @ (if console_output then [StreamHandler ''sys.stdout'' log_format] else [])"
    by (auto simp: setup_logger_def Let_def split: if_splits prod.splits option.splits)
  have d1: "isdir fs1 (path_of_str log_dir)"
    using m by (rule makedirs_success_isdir)
  from write_with_cases [OF w]
  have f: "fs' = fs1(path_of_str log_dir @ [?file] \<mapsto>
             File (fst (open_append (old_content fs1 (path_of_str log_dir @ [?file])))))"
    by (simp add: pj)
  have d: "isdir fs' (path_of_str log_dir)"
    using d1 by (auto simp: f isdir_def)
  have e: "\<exists>c. fs' (path_of_str log_dir @ [?file]) = Some (File c)"
    by (simp add: f)
  have hs: "handlers lg
           = RotatingFileHandler (path_join log_dir ?file)
               (max_log_size * 1024 * 1024) backup_count ''utf-8'' log_format
             # (if console_output then [StreamHandler ''sys.stdout'' log_format] else [])"
    using h by auto
  show ?thesis using hs pj d e by blast
qed

lemma sample_strftime: "strftime_ymd \<lparr>year = 2026, month = 11, day = 4\<rparr> = ''2026-11-04''"
  by (simp add: strftime_ymd_def zfill_def str_nat.simps digit_char_def)

lemma sample_setup_logger:
  "\<exists>lg fs'. setup_logger Map.empty \<lparr>year = 2026, month = 11, day = 4\<rparr> [] False
      ''luxottica_churn'' 20 ''logs'' True 10 5 = (Inr lg, fs')"
proof -
  have p: "path_of_str ''logs'' = [''logs'']"
    by (simp add: path_of_str_def)
  have m: "makedirs Map.empty [''logs''] = (None, [[''logs''] \<mapsto> Dir])"
    by (subst makedirs.simps) (simp add: mkdir_exist_ok_def mkdir_def exists_path_def isdir_def)
  have j: "path_of_str (path_join ''logs'' ''2026-11-04.log'') = [''logs'', ''2026-11-04.log'']"
    by (simp add: path_join_def path_of_str_def)
  have w: "fst (write_with [[''logs''] \<mapsto> Dir] [''logs'', ''2026-11-04.log''] open_append) = None"
    by (simp add: write_with_def isdir_def exists_path_def open_append_def old_content_def)
  obtain fs2 where w2: "write_with [[''logs''] \<mapsto> Dir] [''logs'', ''2026-11-04.log''] open_append = (None, fs2)"
    using w by (cases "write_with [[''logs''] \<mapsto> Dir] [''logs'', ''2026-11-04.log''] open_append") auto
  show ?thesis
    by (simp add: setup_logger_def sample_strftime p m j w2 Let_def)
qed

theorem setup_logger_file_handler_witness:
  "\<exists>lg fs'. setup_logger Map.empty \<lparr>year = 2026, month = 11, day = 4\<rparr> [] False
      ''luxottica_churn'' 20 ''logs'' True 10 5 = (Inr lg, fs')
     \<and> handlers lg = [RotatingFileHandler ''logs/2026-11-04.log'' 10485760 5 ''utf-8'' log_format,
                      StreamHandler ''sys.stdout'' log_format]
     \<and> (\<exists>c. fs' [''logs'', ''2026-11-04.log''] = Some (File c))"
proof -
  from sample_setup_logger obtain lg fs' where
    s: "setup_logger Map.empty \<lparr>year = 2026, month = 11, day = 4\<rparr> [] False
      ''luxottica_churn'' 20 ''logs'' True 10 5 = (Inr lg, fs')"
    by blast
  have p: "path_of_str ''logs'' = [''logs'']"
    by (simp add: path_of_str_def)
  have j: "path_join ''logs'' ''2026-11-04.log'' = ''logs/2026-11-04.log''"
    by (simp add: path_join_def)
  from setup_logger_file_handler [OF s]
  have "handlers lg = [RotatingFileHandler ''logs/2026-11-04.log'' 10485760 5 ''utf-8'' log_format,
                      StreamHandler ''sys.stdout'' log_format]
     \<and> (\<exists>c. fs' [''logs'', ''2026-11-04.log''] = Some (File c))"
    by (simp add: sample_strftime p j)
  with s show ?thesis by blast
qed

end
